theory Spec2Isabelle
  imports Complex_Main "HOL-Library.AList"
begin

section \<open>Numbers\<close>

text \<open>
  The source computes with Python numbers (\<^verbatim>\<open>Number = Union[int, float]\<close>), and uses
  \<^verbatim>\<open>float("inf")\<close> as the end time of a deme that still exists. A number is modelled
  as an exact rational or one of the two infinities, with the usual linear order.
  Rounding and NaN are outside the model.
\<close>

datatype number = MinusInf | Num rat | PlusInf

instantiation number :: linorder
begin

fun less_eq_number :: "number \<Rightarrow> number \<Rightarrow> bool" where
  "less_eq_number MinusInf _ = True"
| "less_eq_number (Num x) MinusInf = False"
| "less_eq_number (Num x) (Num y) = (x \<le> y)"
| "less_eq_number (Num x) PlusInf = True"
| "less_eq_number PlusInf PlusInf = True"
| "less_eq_number PlusInf _ = False"

definition less_number :: "number \<Rightarrow> number \<Rightarrow> bool" where
  "less_number a b = (a \<le> b \<and> \<not> b \<le> a)"

instance
proof
  fix x y z :: number
  show "(x < y) = (x \<le> y \<and> \<not> y \<le> x)"
    by (simp add: less_number_def)
  show "x \<le> x"
    by (cases x) simp_all
  show "x \<le> y \<Longrightarrow> y \<le> z \<Longrightarrow> x \<le> z"
    by (cases x; cases y; cases z) simp_all
  show "x \<le> y \<Longrightarrow> y \<le> x \<Longrightarrow> x = y"
    by (cases x; cases y) simp_all
  show "x \<le> y \<or> y \<le> x"
    by (cases x; cases y) auto
qed

end

text \<open>\<^verbatim>\<open>math.isinf\<close>.\<close>

fun isinf :: "number \<Rightarrow> bool" where
  "isinf (Num x) = False"
| "isinf _ = True"

section \<open>Exceptions\<close>

text \<open>
  Every exception the source can raise is a value. \<open>ValueError\<close> carries the message;
  the message of \<^verbatim>\<open>check_time_intersection\<close> names the time, the interval and its
  closing bracket, which \<open>IntervalError\<close> (a \<^verbatim>\<open>ValueError\<close> too) keeps as data.
\<close>

datatype error =
    ValueError string
  | IntervalError number number number bool
  | TypeError
  | KeyError string
  | IndexError
  | ZeroDivisionError
  | AssertionError
  | UnboundLocalError

fun is_ValueError :: "error \<Rightarrow> bool" where
  "is_ValueError (ValueError m) = True"
| "is_ValueError (IntervalError t lo hi c) = True"
| "is_ValueError _ = False"

section \<open>Validator functions\<close>

definition positive :: "string \<Rightarrow> number \<Rightarrow> error + unit" where
  "positive name v =
     (if v \<le> Num 0 then Inl (ValueError (name @ '' must be greater than zero''))
      else Inr ())"

definition non_negative :: "string \<Rightarrow> number \<Rightarrow> error + unit" where
  "non_negative name v =
     (if v < Num 0 then Inl (ValueError (name @ '' must be non-negative''))
      else Inr ())"

definition finite_v :: "string \<Rightarrow> number \<Rightarrow> error + unit" where
  "finite_v name v =
     (if isinf v then Inl (ValueError (name @ '' must be finite''))
      else Inr ())"

definition unit_interval :: "string \<Rightarrow> number \<Rightarrow> error + unit" where
  "unit_interval name v =
     (if \<not> (Num 0 \<le> v \<and> v \<le> Num 1)
      then Inl (ValueError (''must have 0 <= '' @ name @ '' <= 1''))
      else Inr ())"

text \<open>Running validators one after the other: the first exception wins.\<close>

fun run_validators :: "(string \<Rightarrow> number \<Rightarrow> error + unit) list \<Rightarrow> string \<Rightarrow> number
    \<Rightarrow> error + unit" where
  "run_validators [] name v = Inr ()"
| "run_validators (f # fs) name v =
     (case f name v of Inl e \<Rightarrow> Inl e | Inr u \<Rightarrow> run_validators fs name v)"

text \<open>\<^verbatim>\<open>optional\<close> wraps validators with an "if not None" clause.\<close>

definition optional :: "(string \<Rightarrow> number \<Rightarrow> error + unit) list \<Rightarrow> string \<Rightarrow> number option
    \<Rightarrow> error + unit" where
  "optional fs name v = (case v of None \<Rightarrow> Inr () | Some x \<Rightarrow> run_validators fs name x)"

text \<open>Sequencing of two steps that may raise.\<close>

definition andthen :: "error + 'a \<Rightarrow> ('a \<Rightarrow> error + 'b) \<Rightarrow> error + 'b" where
  "andthen r f = (case r of Inl e \<Rightarrow> Inl e | Inr x \<Rightarrow> f x)"

section \<open>Epoch\<close>

record epoch =
  start_time :: number
  end_time :: "number option"
  initial_size :: "number option"
  final_size :: "number option"

text \<open>
  The constructor of \<^verbatim>\<open>Epoch\<close>: the field validators in the order of the fields,
  then \<^verbatim>\<open>__attrs_post_init__\<close>.
\<close>

definition Epoch :: "number \<Rightarrow> number option \<Rightarrow> number option \<Rightarrow> number option
    \<Rightarrow> error + epoch" where
  "Epoch st et isz fsz =
     andthen (run_validators [non_negative, finite_v] ''start_time'' st) (\<lambda>_.
     andthen (optional [non_negative] ''end_time'' et) (\<lambda>_.
     andthen (optional [positive, finite_v] ''initial_size'' isz) (\<lambda>_.
     andthen (optional [positive, finite_v] ''final_size'' fsz) (\<lambda>_.
       if isz = None \<and> fsz = None
       then Inl (ValueError ''must set either initial_size or final_size'')
       else if (case et of None \<Rightarrow> False | Some e \<Rightarrow> st \<ge> e)
       then Inl (ValueError ''must have start_time < end_time'')
       else Inr \<lparr>start_time = st, end_time = et, initial_size = isz,
                 final_size = (if fsz = None then isz else fsz)\<rparr>))))"

section \<open>Migration and Pulse\<close>

record migration =
  source :: string
  dest :: string
  time :: number
  rate :: number

definition Migration :: "string \<Rightarrow> string \<Rightarrow> number \<Rightarrow> number \<Rightarrow> error + migration" where
  "Migration s d t r =
     andthen (run_validators [non_negative, finite_v] ''time'' t) (\<lambda>_.
     andthen (run_validators [non_negative, finite_v] ''rate'' r) (\<lambda>_.
       if s = d then Inl (ValueError ''source and dest cannot be the same deme'')
       else Inr \<lparr>source = s, dest = d, time = t, rate = r\<rparr>))"

record pulse_rec =
  source :: string
  dest :: string
  time :: number
  proportion :: number

definition Pulse :: "string \<Rightarrow> string \<Rightarrow> number \<Rightarrow> number \<Rightarrow> error + pulse_rec" where
  "Pulse s d t p =
     andthen (run_validators [non_negative, finite_v] ''time'' t) (\<lambda>_.
     andthen (unit_interval ''proportion'' p) (\<lambda>_.
       if s = d then Inl (ValueError ''source and dest cannot be the same deme'')
       else Inr \<lparr>source = s, dest = d, time = t, proportion = p\<rparr>))"

section \<open>Deme\<close>

record deme_rec =
  deme_id :: string
  ancestor :: "string option"
  epochs :: "epoch list"

text \<open>
  The constructor of \<^verbatim>\<open>Deme\<close>: the validator of \<^verbatim>\<open>epochs\<close>, then
  \<^verbatim>\<open>__attrs_post_init__\<close>.
\<close>

definition Deme :: "string \<Rightarrow> string option \<Rightarrow> epoch list \<Rightarrow> error + deme_rec" where
  "Deme i anc es =
     (if length es \<noteq> 1
      then Inl (ValueError
        (''Deme must be created with exactly one epoch.'' @
         ''Use add_epoch() to supply additional epochs.''))
      else if Some i = anc then Inl (ValueError (i @ '' cannot be its own ancestor''))
      else Inr \<lparr>deme_id = i, ancestor = anc, epochs = es\<rparr>)"

text \<open>
  \<^verbatim>\<open>Deme.add_epoch\<close>. The source mutates the last epoch of the deme and the epoch
  it is given, then appends; the model returns what was raised, if anything, and the
  deme as the call leaves it. Epochs are values here: every epoch passed in is an
  object of its own.
\<close>

definition add_epoch :: "deme_rec \<Rightarrow> epoch \<Rightarrow> (error + unit) \<times> deme_rec" where
  "add_epoch d e =
     (if \<not> length (epochs d) > 0 then (Inl AssertionError, d)
      else
        let prev_epoch = epochs d ! (length (epochs d) - 1) in
        if start_time e < start_time prev_epoch
        then (Inl (ValueError
          ''epochs must be non overlapping and added in time-increasing order''), d)
        else
          let e1 = (if end_time e = None then e\<lparr>end_time := end_time prev_epoch\<rparr> else e);
              prev_epoch' = prev_epoch\<lparr>end_time := Some (start_time e1)\<rparr>;
              e2 = (if initial_size e1 = None
                    then e1\<lparr>initial_size := final_size prev_epoch'\<rparr> else e1);
              e3 = (if final_size e2 = None
                    then e2\<lparr>final_size := initial_size e2\<rparr> else e2)
          in (Inr (),
              d\<lparr>epochs := (epochs d)[length (epochs d) - 1 := prev_epoch'] @ [e3]\<rparr>))"

text \<open>The properties \<^verbatim>\<open>Deme.start_time\<close> and \<^verbatim>\<open>Deme.end_time\<close>.\<close>

definition deme_start_time :: "deme_rec \<Rightarrow> error + number" where
  "deme_start_time d =
     (case epochs d of [] \<Rightarrow> Inl IndexError | e # _ \<Rightarrow> Inr (start_time e))"

definition deme_end_time :: "deme_rec \<Rightarrow> error + number option" where
  "deme_end_time d =
     (if epochs d = [] then Inl IndexError else Inr (end_time (last (epochs d))))"

section \<open>DemeGraph\<close>

text \<open>
  The graph owns the list of demes, the lists of migrations and pulses, and the index
  \<^verbatim>\<open>_deme_map\<close> from ids to demes. A deme is never changed once it is registered, so
  the list and the index hold it by value.
\<close>

record deme_graph =
  description :: string
  time_units :: string
  generation_time :: number
  default_Ne :: "number option"
  doi :: "string option"
  demes :: "deme_rec list"
  migrations :: "migration list"
  pulses :: "pulse_rec list"
  deme_map :: "string \<rightharpoonup> deme_rec"

text \<open>The constructor: the field validators, then the empty index.\<close>

definition DemeGraph :: "string \<Rightarrow> string \<Rightarrow> number \<Rightarrow> number option \<Rightarrow> string option
    \<Rightarrow> deme_rec list \<Rightarrow> migration list \<Rightarrow> pulse_rec list \<Rightarrow> error + deme_graph" where
  "DemeGraph descr tu gt ne d ds ms ps =
     andthen (run_validators [positive, finite_v] ''generation_time'' gt) (\<lambda>_.
     andthen (optional [positive, finite_v] ''default_Ne'' ne) (\<lambda>_.
       Inr \<lparr>description = descr, time_units = tu, generation_time = gt, default_Ne = ne,
            doi = d, demes = ds, migrations = ms, pulses = ps, deme_map = Map.empty\<rparr>))"

text \<open>\<^verbatim>\<open>__getitem__\<close> and \<^verbatim>\<open>__contains__\<close>.\<close>

definition getitem :: "deme_graph \<Rightarrow> string \<Rightarrow> error + deme_rec" where
  "getitem g i = (case deme_map g i of None \<Rightarrow> Inl (KeyError i) | Some d \<Rightarrow> Inr d)"

definition contains :: "deme_graph \<Rightarrow> string \<Rightarrow> bool" where
  "contains g i = (deme_map g i \<noteq> None)"

subsection \<open>deme\<close>

text \<open>The loop \<^verbatim>\<open>for epoch in epochs: deme.add_epoch(epoch)\<close>.\<close>

fun add_epochs :: "deme_rec \<Rightarrow> epoch list \<Rightarrow> error + deme_rec" where
  "add_epochs d [] = Inr d"
| "add_epochs d (e # es) =
     (case add_epoch d e of
        (Inl err, d') \<Rightarrow> Inl err
      | (Inr _, d') \<Rightarrow> add_epochs d' es)"

text \<open>
  A builder operation returns what it raised, if anything, together with the graph as
  the call leaves it.
\<close>

type_synonym outcome = "(error + unit) \<times> deme_graph"

definition deme :: "deme_graph \<Rightarrow> string \<Rightarrow> string option \<Rightarrow> number \<Rightarrow> number
    \<Rightarrow> number option \<Rightarrow> number option \<Rightarrow> epoch list option \<Rightarrow> outcome" where
  "deme g i anc st et isz fsz eps =
     (case (case isz of None \<Rightarrow> default_Ne g | Some n \<Rightarrow> Some n) of
        None \<Rightarrow> (Inl (ValueError (''must set initial_size for '' @ i)), g)
      | Some isz' \<Rightarrow>
          let fsz' = (case fsz of None \<Rightarrow> isz' | Some f \<Rightarrow> f) in
          (case (case anc of
                   None \<Rightarrow> Inr et
                 | Some a \<Rightarrow>
                     if \<not> contains g a then Inl (ValueError (a @ '' not in deme graph''))
                     else andthen (getitem g a) (\<lambda>ad.
                       case epochs ad of [] \<Rightarrow> Inl IndexError
                       | e0 # _ \<Rightarrow> Inr (start_time e0))) of
             Inl err \<Rightarrow> (Inl err, g)
           | Inr et' \<Rightarrow>
               (case andthen (Epoch st (Some et') (Some isz') (Some fsz')) (\<lambda>ep.
                     andthen (Deme i anc [ep]) (\<lambda>d.
                       case eps of None \<Rightarrow> Inr d | Some es \<Rightarrow> add_epochs d es)) of
                  Inl err \<Rightarrow> (Inl err, g)
                | Inr d \<Rightarrow>
                    (Inr (), g\<lparr>deme_map := (deme_map g)(deme_id d \<mapsto> d),
                               demes := demes g @ [d]\<rparr>))))"

subsection \<open>check_time_intersection\<close>

text \<open>
  \<^verbatim>\<open>min\<close> of the two end times: an end time that is \<^verbatim>\<open>None\<close> cannot be compared.
\<close>

definition py_min :: "number option \<Rightarrow> number option \<Rightarrow> error + number" where
  "py_min a b =
     (case (a, b) of (Some x, Some y) \<Rightarrow> Inr (min x y) | _ \<Rightarrow> Inl TypeError)"

definition check_time_intersection :: "deme_graph \<Rightarrow> string \<Rightarrow> string \<Rightarrow> number option
    \<Rightarrow> bool \<Rightarrow> error + (number \<times> number)" where
  "check_time_intersection g deme_id1 deme_id2 t cl =
     andthen (getitem g deme_id1) (\<lambda>deme1.
     andthen (getitem g deme_id2) (\<lambda>deme2.
     andthen (deme_start_time deme1) (\<lambda>s1.
     andthen (deme_start_time deme2) (\<lambda>s2.
     let time_lo = max s1 s2 in
     andthen (deme_end_time deme1) (\<lambda>e1.
     andthen (deme_end_time deme2) (\<lambda>e2.
     andthen (py_min e1 e2) (\<lambda>time_hi.
       case t of
         None \<Rightarrow> Inr (time_lo, time_hi)
       | Some tm \<Rightarrow>
           if (\<not> cl \<and> \<not> (time_lo \<le> tm \<and> tm < time_hi))
              \<or> (cl \<and> \<not> (time_lo \<le> tm \<and> tm \<le> time_hi))
           then Inl (IntervalError tm time_lo time_hi cl)
           else Inr (time_lo, time_hi))))))))"

subsection \<open>migration and symmetric_migration\<close>

definition migration :: "deme_graph \<Rightarrow> string \<Rightarrow> string \<Rightarrow> number \<Rightarrow> number option
    \<Rightarrow> number option \<Rightarrow> outcome" where
  "migration g src dst r st et =
     (if \<not> contains g src then (Inl (ValueError (src @ '' not in deme graph'')), g)
      else if \<not> contains g dst then (Inl (ValueError (dst @ '' not in deme graph'')), g)
      else
        case check_time_intersection g src dst st False of
          Inl err \<Rightarrow> (Inl err, g)
        | Inr (time_lo, time_hi) \<Rightarrow>
            let st' = (case st of None \<Rightarrow> time_lo | Some s \<Rightarrow> s) in
            (case Migration src dst st' r of
               Inl err \<Rightarrow> (Inl err, g)
             | Inr m \<Rightarrow>
                 let g1 = g\<lparr>migrations := migrations g @ [m]\<rparr> in
                 (case et of
                    None \<Rightarrow> (Inr (), g1)
                  | Some e \<Rightarrow>
                      (case check_time_intersection g1 src dst (Some e) False of
                         Inl err \<Rightarrow> (Inl err, g1)
                       | Inr _ \<Rightarrow>
                           (case Migration src dst e (Num 0) of
                              Inl err \<Rightarrow> (Inl err, g1)
                            | Inr m0 \<Rightarrow>
                                (Inr (), g1\<lparr>migrations := migrations g1 @ [m0]\<rparr>))))))"

text \<open>
  \<^verbatim>\<open>itertools.permutations(demes, 2)\<close>: the pairs of elements at two different
  positions, in the order of the positions.
\<close>

definition permutations2 :: "'a list \<Rightarrow> ('a \<times> 'a) list" where
  "permutations2 xs =
     concat (map (\<lambda>i. map (\<lambda>j. (xs ! i, xs ! j)) (filter (\<lambda>j. j \<noteq> i) [0..<length xs]))
                 [0..<length xs])"

fun migration_loop :: "deme_graph \<Rightarrow> (string \<times> string) list \<Rightarrow> number \<Rightarrow> number option
    \<Rightarrow> number option \<Rightarrow> outcome" where
  "migration_loop g [] r st et = (Inr (), g)"
| "migration_loop g ((src, dst) # ps) r st et =
     (case migration g src dst r st et of
        (Inl err, g') \<Rightarrow> (Inl err, g')
      | (Inr _, g') \<Rightarrow> migration_loop g' ps r st et)"

definition symmetric_migration :: "deme_graph \<Rightarrow> string list \<Rightarrow> number \<Rightarrow> number option
    \<Rightarrow> number option \<Rightarrow> outcome" where
  "symmetric_migration g ids r st et =
     (if length ids < 2 then (Inl (ValueError ''must specify two or more demes''), g)
      else migration_loop g (permutations2 ids) r st et)"

subsection \<open>pulse\<close>

definition pulse :: "deme_graph \<Rightarrow> string \<Rightarrow> string \<Rightarrow> number \<Rightarrow> number \<Rightarrow> outcome" where
  "pulse g src dst p t =
     (if \<not> contains g src then (Inl (ValueError (src @ '' not in deme graph'')), g)
      else if \<not> contains g dst then (Inl (ValueError (dst @ '' not in deme graph'')), g)
      else
        case andthen (getitem g src) (\<lambda>sd. andthen (getitem g dst) (\<lambda>dd.
               Inr (ancestor sd = Some dst \<or> ancestor dd = Some src))) of
          Inl err \<Rightarrow> (Inl err, g)
        | Inr related \<Rightarrow>
            if related
            then (Inl (ValueError
                    (src @ '' and '' @ dst @ '' have ancestor/descendent relation'')), g)
            else
              (case check_time_intersection g src dst (Some t) True of
                 Inl err \<Rightarrow> (Inl err, g)
               | Inr _ \<Rightarrow>
                   (case Pulse src dst t p of
                      Inl err \<Rightarrow> (Inl err, g)
                    | Inr pl \<Rightarrow> (Inr (), g\<lparr>pulses := pulses g @ [pl]\<rparr>))))"

subsection \<open>subgraph\<close>

text \<open>
  \<^verbatim>\<open>math.isclose\<close> with its default tolerances (\<^verbatim>\<open>rel_tol=1e-09\<close>,
  \<^verbatim>\<open>abs_tol=0.0\<close>), on exact rationals.
\<close>

definition isclose :: "rat \<Rightarrow> rat \<Rightarrow> bool" where
  "isclose a b = (\<bar>a - b\<bar> \<le> max ((1 / 1000000000) * max \<bar>a\<bar> \<bar>b\<bar>) 0)"

text \<open>\<^verbatim>\<open>max(self[anc].start_time for anc in ancestors)\<close>.\<close>

fun start_times :: "deme_graph \<Rightarrow> string list \<Rightarrow> error + number list" where
  "start_times g [] = Inr []"
| "start_times g (a # as) =
     andthen (getitem g a) (\<lambda>d.
     andthen (deme_start_time d) (\<lambda>s.
     andthen (start_times g as) (\<lambda>ss. Inr (s # ss))))"

definition max_start_time :: "deme_graph \<Rightarrow> string list \<Rightarrow> error + number" where
  "max_start_time g ancs =
     andthen (start_times g ancs) (\<lambda>ss.
       case ss of [] \<Rightarrow> Inl (ValueError ''max() arg is an empty sequence'')
       | s # rest \<Rightarrow> Inr (foldl max s rest))"

text \<open>
  The loop over \<^verbatim>\<open>enumerate(ancestors)\<close>. The proportions are finite numbers (a list
  holding an infinity does not sum to 1); \<open>p\<close> is the loop's variable \<^verbatim>\<open>p\<close>, unbound
  before the first iteration.
\<close>

fun pulse_loop :: "deme_graph \<Rightarrow> string \<Rightarrow> string list \<Rightarrow> rat list \<Rightarrow> number \<Rightarrow> nat list
    \<Rightarrow> rat option \<Rightarrow> (error + rat option) \<times> deme_graph" where
  "pulse_loop g i ancs props et [] p = (Inr p, g)"
| "pulse_loop g i ancs props et (j # js) p =
     (if j \<ge> length props then (Inl IndexError, g)
      else if sum_list (drop j props) = 0 then (Inl ZeroDivisionError, g)
      else
        let p' = props ! j / sum_list (drop j props) in
        (case pulse g i (ancs ! j) (Num p') et of
           (Inl err, g') \<Rightarrow> (Inl err, g')
         | (Inr _, g') \<Rightarrow> pulse_loop g' i ancs props et js (Some p')))"

definition subgraph :: "deme_graph \<Rightarrow> string \<Rightarrow> string list \<Rightarrow> rat list \<Rightarrow> number
    \<Rightarrow> number option \<Rightarrow> number option \<Rightarrow> number option \<Rightarrow> epoch list option \<Rightarrow> outcome" where
  "subgraph g i ancs props st et isz fsz eps =
     (if length ancs \<noteq> length props
      then (Inl (ValueError ''len(ancestors) != len(proportions)''), g)
      else if \<not> isclose (sum_list props) 1
      then (Inl (ValueError ''proportions must sum to 1''), g)
      else
        case (case et of None \<Rightarrow> max_start_time g ancs | Some e \<Rightarrow> Inr e) of
          Inl err \<Rightarrow> (Inl err, g)
        | Inr et' \<Rightarrow>
            (case deme g i None st et' isz fsz eps of
               (Inl err, g1) \<Rightarrow> (Inl err, g1)
             | (Inr _, g1) \<Rightarrow>
                 (case pulse_loop g1 i ancs props et' [0..<length ancs] None of
                    (Inl err, g2) \<Rightarrow> (Inl err, g2)
                  | (Inr None, g2) \<Rightarrow> (Inl UnboundLocalError, g2)
                  | (Inr (Some p), g2) \<Rightarrow>
                      if p = 1 then (Inr (), g2) else (Inl AssertionError, g2))))"

section \<open>The compact dict representation\<close>

text \<open>
  The values \<^verbatim>\<open>asdict_compact\<close> puts into its dicts. A dict is an association list
  in insertion order; \<^verbatim>\<open>dict.update(k=v)\<close> is \<open>AList.update\<close>.
\<close>

datatype pyval =
    PyNone
  | PyNum number
  | PyStr string
  | PyList "pyval list"
  | PyDict "(string \<times> pyval) list"

fun of_size :: "number option \<Rightarrow> pyval" where
  "of_size None = PyNone"
| "of_size (Some n) = PyNum n"

text \<open>
  The body of the loop \<^verbatim>\<open>for j, epoch in enumerate(deme.epochs)\<close>: the dict
  \<^verbatim>\<open>e\<close> built for the epoch at position \<open>j\<close>.
\<close>

definition epoch_dict :: "epoch list \<Rightarrow> nat \<Rightarrow> (string \<times> pyval) list" where
  "epoch_dict es j =
     (let epoch = es ! j;
          e0 = [];
          e1 = (if start_time epoch > Num 0
                then AList.update ''start_time'' (PyNum (start_time epoch)) e0 else e0)
      in
        if initial_size epoch = final_size epoch
        then AList.update ''initial_size'' (of_size (initial_size epoch)) e1
        else
          let e2 = AList.update ''final_size'' (of_size (final_size epoch)) e1 in
          if j = 0 \<or> j = length es - 1
             \<or> initial_size epoch \<noteq> final_size (es ! (j - 1))
          then AList.update ''initial_size'' (of_size (initial_size epoch)) e2
          else e2)"

definition e_list :: "epoch list \<Rightarrow> (string \<times> pyval) list list" where
  "e_list es = map (epoch_dict es) [0..<length es]"

text \<open>
  The body of the loop \<^verbatim>\<open>for deme in self.demes\<close>: the dict \<^verbatim>\<open>deme_dict\<close> of one
  deme.
\<close>

definition deme_dict :: "deme_rec \<Rightarrow> error + (string \<times> pyval) list" where
  "deme_dict d =
     (let dd0 = [];
          dd1 = (case ancestor d of None \<Rightarrow> dd0
                 | Some a \<Rightarrow> AList.update ''ancestor'' (PyStr a) dd0)
      in
        if \<not> length (epochs d) > 0 then Inl AssertionError
        else
          let first = epochs d ! 0;
              dd2 = (if start_time first > Num 0
                     then AList.update ''start_time'' (PyNum (start_time first)) dd1
                     else dd1);
              dd3 = AList.update ''initial_size'' (of_size (initial_size first)) dd2;
              dd4 = (if final_size first \<noteq> initial_size first
                     then AList.update ''final_size'' (of_size (final_size first)) dd3
                     else dd3);
              el = e_list (epochs d)
          in Inr (if length el > 1
                  then AList.update ''epochs'' (PyList (map PyDict (drop 1 el))) dd4
                  else dd4))"

section \<open>asdict_compact\<close>

text \<open>
  The loop \<^verbatim>\<open>for deme in self.demes\<close>: the dict \<^verbatim>\<open>d["demes"]\<close>, in which the entry
  of an id that occurs again replaces the earlier one.
\<close>

fun demes_dict :: "deme_rec list \<Rightarrow> (string \<times> pyval) list \<Rightarrow> error + (string \<times> pyval) list"
  where
  "demes_dict [] acc = Inr acc"
| "demes_dict (d # ds) acc =
     andthen (deme_dict d) (\<lambda>dd. demes_dict ds (AList.update (deme_id d) (PyDict dd) acc))"

text \<open>
  \<^verbatim>\<open>m_dict\<close>, a \<^verbatim>\<open>defaultdict(list)\<close>: the migrations grouped by source and destination,
  the groups in the order of their first migration.
\<close>

definition m_dict :: "migration list \<Rightarrow> ((string \<times> string) \<times> migration list) list" where
  "m_dict ms =
     foldl (\<lambda>md m.
        let k = (migration.source m, migration.dest m) in
        AList.update k ((case map_of md k of None \<Rightarrow> [] | Some l \<Rightarrow> l) @ [m]) md) [] ms"

text \<open>
  The loop \<^verbatim>\<open>while True\<close> over one group: \<open>m\<close> is \<^verbatim>\<open>m_sublist[0]\<close> and \<open>ms\<close> the
  rest. It returns the entries appended to \<^verbatim>\<open>m_list\<close>.
\<close>

fun walk :: "string \<Rightarrow> string \<Rightarrow> number \<Rightarrow> number \<Rightarrow> migration \<Rightarrow> migration list
    \<Rightarrow> (string \<times> pyval) list list" where
  "walk src dst time_lo time_hi m ms =
     (let entry0 = [(''source'', PyStr src), (''dest'', PyStr dst),
                    (''rate'', PyNum (rate m))];
          entry1 = (if migration.time m \<noteq> time_lo
                    then AList.update ''start_time'' (PyNum (migration.time m)) entry0
                    else entry0)
      in case ms of
           [] \<Rightarrow> [entry1]
         | m' # ms' \<Rightarrow>
             if rate m \<noteq> Num 0 \<and> rate m' = Num 0
             then
               (let entry2 = (if migration.time m' \<noteq> time_hi
                              then AList.update ''end_time'' (PyNum (migration.time m')) entry1
                              else entry1)
                in case ms' of
                     [] \<Rightarrow> [entry2]
                   | m'' # ms'' \<Rightarrow> entry2 # walk src dst time_lo time_hi m'' ms'')
             else entry1 # walk src dst time_lo time_hi m' ms')"

text \<open>The loop \<^verbatim>\<open>for (source, dest), m_sublist in m_dict.items()\<close>.\<close>

fun compact_groups :: "deme_graph \<Rightarrow> ((string \<times> string) \<times> migration list) list
    \<Rightarrow> error + (string \<times> pyval) list list" where
  "compact_groups g [] = Inr []"
| "compact_groups g (((src, dst), m_sublist) # rest) =
     andthen (check_time_intersection g src dst None False) (\<lambda>(time_lo, time_hi).
       case m_sublist of
         [] \<Rightarrow> Inl IndexError
       | m # ms \<Rightarrow>
           andthen (compact_groups g rest) (\<lambda>tail.
             Inr (walk src dst time_lo time_hi m ms @ tail)))"

text \<open>\<^verbatim>\<open>attr.asdict(pulse)\<close>.\<close>

definition pulse_dict :: "pulse_rec \<Rightarrow> (string \<times> pyval) list" where
  "pulse_dict p = [(''source'', PyStr (source p)), (''dest'', PyStr (dest p)),
                   (''time'', PyNum (time p)), (''proportion'', PyNum (proportion p))]"

definition asdict_compact :: "deme_graph \<Rightarrow> error + (string \<times> pyval) list" where
  "asdict_compact g =
     (let d0 = [(''description'', PyStr (description g)),
                (''time_units'', PyStr (time_units g)),
                (''generation_time'', PyNum (generation_time g))];
          d1 = (case doi g of None \<Rightarrow> d0 | Some x \<Rightarrow> AList.update ''doi'' (PyStr x) d0);
          d2 = (case default_Ne g of None \<Rightarrow> d1
                | Some n \<Rightarrow> AList.update ''default_Ne'' (PyNum n) d1)
      in
        if \<not> length (demes g) > 0 then Inl AssertionError
        else
          andthen (demes_dict (demes g) []) (\<lambda>dm.
          let d3 = AList.update ''demes'' (PyDict dm) d2 in
          andthen (if length (migrations g) > 0
                   then andthen (compact_groups g (m_dict (migrations g))) (\<lambda>m_list.
                          Inr (AList.update ''migrations'' (PyList (map PyDict m_list)) d3))
                   else Inr d3) (\<lambda>d4.
          Inr (if length (pulses g) > 0
               then AList.update ''pulses'' (PyList (map (\<lambda>p. PyDict (pulse_dict p)) (pulses g))) d4
               else d4))))"

section \<open>Epoch objects by reference\<close>

text \<open>
  \<^verbatim>\<open>Deme.add_epoch\<close> changes Epoch objects in place: the epoch it is given and the last
  epoch of the deme. The functions above hold epochs by value, which is what the
  source computes when every Epoch it is given is an object of its own. An Epoch
  object that is passed twice, or that is an epoch of a registered deme, is changed for
  all its holders. In this section the Epoch objects live in a store and are named by
  their position in it; a deme holds the list of the positions of its epochs.
\<close>

type_synonym store = "epoch list"

record deme_o =
  o_id :: string
  o_ancestor :: "string option"
  o_epochs :: "nat list"

record graph_o =
  store :: store
  o_description :: string
  o_time_units :: string
  o_generation_time :: number
  o_default_Ne :: "number option"
  o_doi :: "string option"
  o_demes :: "deme_o list"
  o_migrations :: "migration list"
  o_pulses :: "pulse_rec list"
  o_deme_map :: "string \<rightharpoonup> deme_o"

text \<open>The deme and the graph that the objects amount to, by value.\<close>

definition view_deme :: "store \<Rightarrow> deme_o \<Rightarrow> deme_rec" where
  "view_deme S d =
     \<lparr>deme_id = o_id d, ancestor = o_ancestor d, epochs = map (\<lambda>r. S ! r) (o_epochs d)\<rparr>"

definition view :: "graph_o \<Rightarrow> deme_graph" where
  "view G =
     \<lparr>description = o_description G, time_units = o_time_units G,
      generation_time = o_generation_time G, default_Ne = o_default_Ne G, doi = o_doi G,
      demes = map (view_deme (store G)) (o_demes G), migrations = o_migrations G,
      pulses = o_pulses G,
      deme_map = (\<lambda>i. map_option (view_deme (store G)) (o_deme_map G i))\<rparr>"

text \<open>A call of the constructor \<^verbatim>\<open>Epoch\<close> by the user: the new object is put into the store.\<close>

definition new_Epoch :: "graph_o \<Rightarrow> number \<Rightarrow> number option \<Rightarrow> number option \<Rightarrow> number option
    \<Rightarrow> (error + nat) \<times> graph_o" where
  "new_Epoch G st et isz fsz =
     (case Epoch st et isz fsz of
        Inl err \<Rightarrow> (Inl err, G)
      | Inr e \<Rightarrow> (Inr (length (store G)), G\<lparr>store := store G @ [e]\<rparr>))"

text \<open>An assignment to fields of the object at position \<open>r\<close>.\<close>

definition assign :: "store \<Rightarrow> nat \<Rightarrow> (epoch \<Rightarrow> epoch) \<Rightarrow> store" where
  "assign S r f = S[r := f (S ! r)]"

text \<open>
  \<^verbatim>\<open>Deme.add_epoch\<close>, assignment by assignment; \<open>r\<close> is the epoch given and \<open>p\<close> is
  \<^verbatim>\<open>prev_epoch\<close>, which may be the same object.
\<close>

definition add_epoch_o :: "store \<Rightarrow> deme_o \<Rightarrow> nat \<Rightarrow> (error + unit) \<times> store \<times> deme_o" where
  "add_epoch_o S d r =
     (if \<not> length (o_epochs d) > 0 then (Inl AssertionError, S, d)
      else
        let p = o_epochs d ! (length (o_epochs d) - 1) in
        if start_time (S ! r) < start_time (S ! p)
        then (Inl (ValueError
          ''epochs must be non overlapping and added in time-increasing order''), S, d)
        else
          let S1 = (if end_time (S ! r) = None
                    then assign S r (\<lambda>x. x\<lparr>end_time := end_time (S ! p)\<rparr>) else S);
              S2 = assign S1 p (\<lambda>x. x\<lparr>end_time := Some (start_time (S1 ! r))\<rparr>);
              S3 = (if initial_size (S2 ! r) = None
                    then assign S2 r (\<lambda>x. x\<lparr>initial_size := final_size (S2 ! p)\<rparr>) else S2);
              S4 = (if final_size (S3 ! r) = None
                    then assign S3 r (\<lambda>x. x\<lparr>final_size := initial_size (S3 ! r)\<rparr>) else S3)
          in (Inr (), S4, d\<lparr>o_epochs := o_epochs d @ [r]\<rparr>))"

fun add_epochs_o :: "store \<Rightarrow> deme_o \<Rightarrow> nat list \<Rightarrow> (error + unit) \<times> store \<times> deme_o" where
  "add_epochs_o S d [] = (Inr (), S, d)"
| "add_epochs_o S d (r # rs) =
     (case add_epoch_o S d r of
        (Inl err, S', d') \<Rightarrow> (Inl err, S', d')
      | (Inr _, S', d') \<Rightarrow> add_epochs_o S' d' rs)"

text \<open>
  \<^verbatim>\<open>DemeGraph.deme\<close>, with the additional epochs given as objects of the store. The
  first epoch is a new object.
\<close>

definition deme_o :: "graph_o \<Rightarrow> string \<Rightarrow> string option \<Rightarrow> number \<Rightarrow> number
    \<Rightarrow> number option \<Rightarrow> number option \<Rightarrow> nat list option \<Rightarrow> (error + unit) \<times> graph_o" where
  "deme_o G i anc st et isz fsz eps =
     (case (case isz of None \<Rightarrow> o_default_Ne G | Some n \<Rightarrow> Some n) of
        None \<Rightarrow> (Inl (ValueError (''must set initial_size for '' @ i)), G)
      | Some isz' \<Rightarrow>
          let fsz' = (case fsz of None \<Rightarrow> isz' | Some f \<Rightarrow> f) in
          (case (case anc of
                   None \<Rightarrow> Inr et
                 | Some a \<Rightarrow>
                     (case o_deme_map G a of
                        None \<Rightarrow> Inl (ValueError (a @ '' not in deme graph''))
                      | Some ad \<Rightarrow>
                          (case o_epochs ad of [] \<Rightarrow> Inl IndexError
                           | r0 # _ \<Rightarrow> Inr (start_time (store G ! r0))))) of
             Inl err \<Rightarrow> (Inl err, G)
           | Inr et' \<Rightarrow>
               (case Epoch st (Some et') (Some isz') (Some fsz') of
                  Inl err \<Rightarrow> (Inl err, G)
                | Inr e \<Rightarrow>
                    let S1 = store G @ [e]; r = length (store G) in
                    (case Deme i anc [e] of
                       Inl err \<Rightarrow> (Inl err, G\<lparr>store := S1\<rparr>)
                     | Inr _ \<Rightarrow>
                         (case add_epochs_o S1 \<lparr>o_id = i, o_ancestor = anc, o_epochs = [r]\<rparr>
                                 (case eps of None \<Rightarrow> [] | Some rs \<Rightarrow> rs) of
                            (Inl err, S2, d) \<Rightarrow> (Inl err, G\<lparr>store := S2\<rparr>)
                          | (Inr _, S2, d) \<Rightarrow>
                              (Inr (), G\<lparr>store := S2,
                                 o_deme_map := (o_deme_map G)(o_id d \<mapsto> d),
                                 o_demes := o_demes G @ [d]\<rparr>))))))"

section \<open>Example values\<close>

text \<open>A deme \<open>A\<close> with the single epoch from 0 to infinity at size 100.\<close>

definition deme_A :: deme_rec where
  "deme_A = \<lparr>deme_id = ''A'', ancestor = None,
     epochs = [\<lparr>start_time = Num 0, end_time = Some PlusInf,
                initial_size = Some (Num 100), final_size = Some (Num 100)\<rparr>]\<rparr>"

text \<open>
  The empty graph \<^verbatim>\<open>DemeGraph("demo", "generations", 1, default_Ne=100)\<close>, and graphs
  built from it by calls of \<^verbatim>\<open>deme\<close>.
\<close>

definition graph0 :: deme_graph where
  "graph0 = \<lparr>description = ''demo'', time_units = ''generations'',
     generation_time = Num 1, default_Ne = Some (Num 100), doi = None, demes = [],
     migrations = [], pulses = [], deme_map = Map.empty\<rparr>"

text \<open>\<open>A\<close> and \<open>B\<close> both exist from time 0 to time 100.\<close>

definition graph_AB :: deme_graph where
  "graph_AB =
     snd (deme (snd (deme graph0 ''A'' None (Num 0) (Num 100) None None None))
            ''B'' None (Num 0) (Num 100) None None None)"

text \<open>\<open>A\<close>, \<open>B\<close> and \<open>C\<close> all exist from time 0 to time 100.\<close>

definition graph_ABC :: deme_graph where
  "graph_ABC = snd (deme graph_AB ''C'' None (Num 0) (Num 100) None None None)"

text \<open>\<open>A\<close> exists from 0 to 10 and \<open>B\<close> from 20 to 30: they never coexist.\<close>

definition graph_apart :: deme_graph where
  "graph_apart =
     snd (deme (snd (deme graph0 ''A'' None (Num 0) (Num 10) None None None))
            ''B'' None (Num 20) (Num 30) None None None)"

text \<open>\<open>A\<close> starts at time 10.\<close>

definition graph_A10 :: deme_graph where
  "graph_A10 = snd (deme graph0 ''A'' None (Num 10) PlusInf None None None)"

text \<open>\<open>A\<close> and \<open>B\<close> both start at time 5.\<close>

definition graph_55 :: deme_graph where
  "graph_55 =
     snd (deme (snd (deme graph0 ''A'' None (Num 5) PlusInf None None None))
            ''B'' None (Num 5) PlusInf None None None)"

text \<open>An epoch of constant size 100.\<close>

definition ep :: "number \<Rightarrow> number \<Rightarrow> epoch" where
  "ep s e = \<lparr>start_time = s, end_time = Some e, initial_size = Some (Num 100),
     final_size = Some (Num 100)\<rparr>"

definition ex_A :: deme_rec where
  "ex_A = \<lparr>deme_id = ''A'', ancestor = None, epochs = [ep (Num 0) (Num 100)]\<rparr>"

definition ex_B :: deme_rec where
  "ex_B = \<lparr>deme_id = ''B'', ancestor = None, epochs = [ep (Num 0) (Num 100)]\<rparr>"

text \<open>\<open>A\<close> starts at time 10 and is the ancestor of \<open>B\<close>, which exists from 0 to 10.\<close>

definition graph_anc :: deme_graph where
  "graph_anc = snd (deme graph_A10 ''B'' (Some ''A'') (Num 0) PlusInf None None None)"

definition ex_A10 :: deme_rec where
  "ex_A10 = \<lparr>deme_id = ''A'', ancestor = None, epochs = [ep (Num 10) PlusInf]\<rparr>"

definition ex_B_of_A :: deme_rec where
  "ex_B_of_A = \<lparr>deme_id = ''B'', ancestor = Some ''A'', epochs = [ep (Num 0) (Num 10)]\<rparr>"

text \<open>\<^verbatim>\<open>deme("A")\<close> called twice on the empty graph, the second time from time 5.\<close>

definition graph_AA :: deme_graph where
  "graph_AA =
     snd (deme (snd (deme graph0 ''A'' None (Num 0) (Num 100) None None None))
            ''A'' None (Num 5) (Num 100) None None None)"

definition ex_A5 :: deme_rec where
  "ex_A5 = \<lparr>deme_id = ''A'', ancestor = None, epochs = [ep (Num 5) (Num 100)]\<rparr>"

text \<open>\<open>A\<close> alone, from time 0 to time 100.\<close>

definition graph_A :: deme_graph where
  "graph_A = snd (deme graph0 ''A'' None (Num 0) (Num 100) None None None)"

text \<open>The epochs \<^verbatim>\<open>Epoch(start_time=0, initial_size=50)\<close> and
  \<^verbatim>\<open>Epoch(start_time=100, initial_size=50)\<close>, as the constructor returns them.\<close>

definition ex_e0 :: epoch where
  "ex_e0 = \<lparr>start_time = Num 0, end_time = None, initial_size = Some (Num 50),
     final_size = Some (Num 50)\<rparr>"

definition ex_e100 :: epoch where
  "ex_e100 = \<lparr>start_time = Num 100, end_time = None, initial_size = Some (Num 50),
     final_size = Some (Num 50)\<rparr>"

text \<open>
  A deme with three epochs: size 100 up to time 10, a change from 100 to 200 up to
  time 20, and size 200 from then on.
\<close>

definition ex_d3 :: deme_rec where
  "ex_d3 = \<lparr>deme_id = ''A'', ancestor = None,
     epochs = [ep (Num 0) (Num 10),
               \<lparr>start_time = Num 10, end_time = Some (Num 20),
                initial_size = Some (Num 100), final_size = Some (Num 200)\<rparr>,
               \<lparr>start_time = Num 20, end_time = Some PlusInf,
                initial_size = Some (Num 200), final_size = Some (Num 200)\<rparr>]\<rparr>"

text \<open>The epoch \<^verbatim>\<open>Epoch(start_time=1, end_time=2, initial_size=50)\<close>.\<close>

definition ex_e12 :: epoch where
  "ex_e12 = \<lparr>start_time = Num 1, end_time = Some (Num 2), initial_size = Some (Num 50),
     final_size = Some (Num 50)\<rparr>"

text \<open>The empty graph without \<^verbatim>\<open>default_Ne\<close>.\<close>

definition graph_no_Ne :: deme_graph where
  "graph_no_Ne = graph0\<lparr>default_Ne := None\<rparr>"

definition ex_C :: deme_rec where
  "ex_C = \<lparr>deme_id = ''C'', ancestor = None, epochs = [ep (Num 0) (Num 100)]\<rparr>"

definition ex_A_early :: deme_rec where
  "ex_A_early = \<lparr>deme_id = ''A'', ancestor = None, epochs = [ep (Num 0) (Num 10)]\<rparr>"

definition ex_B_late :: deme_rec where
  "ex_B_late = \<lparr>deme_id = ''B'', ancestor = None, epochs = [ep (Num 20) (Num 30)]\<rparr>"

definition ex_A5inf :: deme_rec where
  "ex_A5inf = \<lparr>deme_id = ''A'', ancestor = None, epochs = [ep (Num 5) PlusInf]\<rparr>"

definition ex_B5inf :: deme_rec where
  "ex_B5inf = \<lparr>deme_id = ''B'', ancestor = None, epochs = [ep (Num 5) PlusInf]\<rparr>"

text \<open>
  The epochs \<^verbatim>\<open>Epoch(start_time=10, final_size=200)\<close> and
  \<^verbatim>\<open>Epoch(start_time=20, initial_size=200)\<close>, as the constructor returns them; the
  graph in which \<open>A\<close> has them as additional epochs; and that graph after \<open>A\<close> is
  registered again with a single epoch.
\<close>

definition ex_e10 :: epoch where
  "ex_e10 = \<lparr>start_time = Num 10, end_time = None, initial_size = None,
     final_size = Some (Num 200)\<rparr>"

definition ex_e20 :: epoch where
  "ex_e20 = \<lparr>start_time = Num 20, end_time = None, initial_size = Some (Num 200),
     final_size = Some (Num 200)\<rparr>"

definition graph_three :: deme_graph where
  "graph_three = snd (deme graph0 ''A'' None (Num 0) PlusInf None None (Some [ex_e10, ex_e20]))"

definition graph_shadow :: deme_graph where
  "graph_shadow = snd (deme graph_three ''A'' None (Num 0) PlusInf None None None)"

definition ex_A_inf :: deme_rec where
  "ex_A_inf = \<lparr>deme_id = ''A'', ancestor = None, epochs = [ep (Num 0) PlusInf]\<rparr>"

section \<open>Facts about numbers\<close>

lemma num_less_simps [simp]:
  "(Num x < Num y) = (x < y)" "MinusInf < Num y" "Num x < PlusInf" "MinusInf < PlusInf"
  "\<not> Num x < MinusInf" "\<not> PlusInf < n" "\<not> n < MinusInf"
  by (cases n; auto simp: less_number_def)+

lemma num_le_simps [simp]:
  "n \<le> PlusInf" "(PlusInf \<le> n) = (n = PlusInf)" "(n \<le> MinusInf) = (n = MinusInf)"
  by (cases n; simp)+

section \<open>Facts about the constructors and the builder\<close>

lemmas ctor_defs = Epoch_def Deme_def Migration_def Pulse_def andthen_def optional_def
  positive_def non_negative_def finite_v_def unit_interval_def

lemma andthen_Inr_iff: "(andthen r f = Inr y) = (\<exists>x. r = Inr x \<and> f x = Inr y)"
  by (cases r) (simp_all add: andthen_def)

lemma Pulse_Inr:
  "Pulse s d t p = Inr pl \<Longrightarrow> pl = \<lparr>source = s, dest = d, time = t, proportion = p\<rparr>"
  by (auto simp: Pulse_def andthen_Inr_iff split: if_splits)

lemma Migration_Inr:
  "Migration s d t r = Inr m \<Longrightarrow>
     m = \<lparr>migration.source = s, migration.dest = d, migration.time = t, rate = r\<rparr>"
  by (auto simp: Migration_def andthen_Inr_iff split: if_splits)

lemma Deme_Inr:
  "Deme i anc es = Inr d \<Longrightarrow>
     d = \<lparr>deme_id = i, ancestor = anc, epochs = es\<rparr> \<and> length es = 1"
  by (auto simp: Deme_def split: if_splits)

lemma Epoch_Inr:
  "Epoch st et isz fsz = Inr e \<Longrightarrow>
     e = \<lparr>start_time = st, end_time = et, initial_size = isz,
          final_size = (if fsz = None then isz else fsz)\<rparr>"
  by (auto simp: Epoch_def andthen_Inr_iff split: if_splits)


lemma pulse_Inr:
  "pulse g src dst p t = (Inr u, g') \<Longrightarrow>
     g' = g\<lparr>pulses := pulses g @
            [\<lparr>source = src, dest = dst, time = t, proportion = p\<rparr>]\<rparr>"
  by (auto simp: pulse_def Let_def split: if_splits sum.splits dest: Pulse_Inr)


lemma deme_Inr:
  "deme g i anc st et isz fsz eps = (Inr u, g') \<Longrightarrow>
     \<exists>d. g' = g\<lparr>deme_map := (deme_map g)(deme_id d \<mapsto> d), demes := demes g @ [d]\<rparr>"
  by (auto simp: deme_def Let_def split: option.splits sum.splits)

text \<open>The example graphs start from what the constructor returns.\<close>

lemma DemeGraph_graph0:
  "DemeGraph ''demo'' ''generations'' (Num 1) (Some (Num 100)) None [] [] [] = Inr graph0"
  "DemeGraph ''demo'' ''generations'' (Num 1) None None [] [] [] = Inr graph_no_Ne"
  by (simp_all add: DemeGraph_def graph0_def graph_no_Ne_def ctor_defs)

section \<open>Deme epoch management\<close>

text \<open>
  C3. For a deme with at least one epoch, \<^verbatim>\<open>add_epoch\<close> of an epoch that starts
  before the last epoch's start raises a \<^verbatim>\<open>ValueError\<close> and leaves the deme as it was.
  Otherwise the last epoch's end time becomes the new epoch's start time, and the new
  epoch is appended with its unset fields filled in: an unset end time is the end time
  the deme had, an unset initial size is the previous epoch's final size, an unset
  final size is the (filled-in) initial size.
\<close>

theorem add_epoch_spec:
  assumes "epochs d \<noteq> []"
  shows "(start_time e < start_time (last (epochs d)) \<longrightarrow>
           (\<exists>m. add_epoch d e = (Inl (ValueError m), d)))
       \<and> (\<not> start_time e < start_time (last (epochs d)) \<longrightarrow>
           add_epoch d e = (Inr (),
             d\<lparr>epochs := butlast (epochs d) @
                 [(last (epochs d))\<lparr>end_time := Some (start_time e)\<rparr>,
                  \<lparr>start_time = start_time e,
                   end_time = (case end_time e of None \<Rightarrow> end_time (last (epochs d))
                               | Some t \<Rightarrow> Some t),
                   initial_size = (case initial_size e of
                                     None \<Rightarrow> final_size (last (epochs d))
                                   | Some n \<Rightarrow> Some n),
                   final_size = (case final_size e of
                                   None \<Rightarrow> (case initial_size e of
                                              None \<Rightarrow> final_size (last (epochs d))
                                            | Some n \<Rightarrow> Some n)
                                 | Some f \<Rightarrow> Some f)\<rparr>]\<rparr>))"
  using assms
  by (auto simp: add_epoch_def Let_def last_conv_nth butlast_conv_take
      upd_conv_take_nth_drop split: option.splits)

theorem add_epoch_spec_witness:
  "epochs deme_A \<noteq> []
   \<and> add_epoch deme_A \<lparr>start_time = Num 10, end_time = None, initial_size = None,
                        final_size = None\<rparr>
     = (Inr (), \<lparr>deme_id = ''A'', ancestor = None,
          epochs = [\<lparr>start_time = Num 0, end_time = Some (Num 10),
                     initial_size = Some (Num 100), final_size = Some (Num 100)\<rparr>,
                    \<lparr>start_time = Num 10, end_time = Some PlusInf,
                     initial_size = Some (Num 100), final_size = Some (Num 100)\<rparr>]\<rparr>)
   \<and> (\<exists>m. add_epoch deme_A \<lparr>start_time = Num (-1), end_time = None,
                initial_size = None, final_size = None\<rparr> = (Inl (ValueError m), deme_A))"
  using add_epoch_spec [of deme_A "\<lparr>start_time = Num 10, end_time = None,
          initial_size = None, final_size = None\<rparr>"]
        add_epoch_spec [of deme_A "\<lparr>start_time = Num (-1), end_time = None,
          initial_size = None, final_size = None\<rparr>"]
  by (simp add: deme_A_def)

section \<open>Temporal intersection check\<close>

lemma cti_None:
  "check_time_intersection g a b None cl = check_time_intersection g a b None False"
  by (simp add: check_time_intersection_def)

lemma cti_Some:
  "check_time_intersection g a b (Some t) cl =
     (case check_time_intersection g a b None False of
        Inl e \<Rightarrow> Inl e
      | Inr (lo, hi) \<Rightarrow>
          if (if cl then lo \<le> t \<and> t \<le> hi else lo \<le> t \<and> t < hi) then Inr (lo, hi)
          else Inl (IntervalError t lo hi cl))"
  by (auto simp: check_time_intersection_def andthen_def Let_def split: sum.splits)

lemma cti_cong:
  "deme_map g' = deme_map g \<Longrightarrow>
     check_time_intersection g' a b t cl = check_time_intersection g a b t cl"
  by (simp add: check_time_intersection_def getitem_def)

lemma cti_None_eq:
  assumes "deme_map g id1 = Some d1" and "deme_map g id2 = Some d2"
    and "epochs d1 \<noteq> []" and "epochs d2 \<noteq> []"
    and "end_time (last (epochs d1)) = Some e1" and "end_time (last (epochs d2)) = Some e2"
  shows "check_time_intersection g id1 id2 None cl =
     Inr (max (start_time (hd (epochs d1))) (start_time (hd (epochs d2))), min e1 e2)"
  using assms
  by (cases "epochs d1"; cases "epochs d2")
     (simp_all add: check_time_intersection_def getitem_def andthen_def deme_start_time_def
        deme_end_time_def py_min_def Let_def)

lemmas eval_defs = deme_def ctor_defs contains_def getitem_def Let_def

lemma graph_AB_eq:
  "graph_AB = graph0\<lparr>demes := [ex_A, ex_B], deme_map := [''A'' \<mapsto> ex_A, ''B'' \<mapsto> ex_B]\<rparr>"
  by (simp add: graph_AB_def graph0_def eval_defs ep_def ex_A_def ex_B_def)

text \<open>
  C4. For two demes of the graph (each with at least one epoch and an end time),
  \<^verbatim>\<open>check_time_intersection\<close> returns the pair of the larger start time and the
  smaller end time. With a time supplied it returns that pair when the time lies in
  the interval (half-open, or closed when \<^verbatim>\<open>closed\<close> is true), and raises the
  \<^verbatim>\<open>ValueError\<close> naming the time and the interval exactly when it does not. The
  function returns no graph: it is a query.
\<close>

theorem check_time_intersection_spec:
  assumes "deme_map g id1 = Some d1" and "deme_map g id2 = Some d2"
    and "epochs d1 \<noteq> []" and "epochs d2 \<noteq> []"
    and "end_time (last (epochs d1)) = Some e1" and "end_time (last (epochs d2)) = Some e2"
  defines "time_lo \<equiv> max (start_time (hd (epochs d1))) (start_time (hd (epochs d2)))"
    and "time_hi \<equiv> min e1 e2"
  shows "check_time_intersection g id1 id2 None cl = Inr (time_lo, time_hi)
       \<and> check_time_intersection g id1 id2 (Some t) cl =
           (if (if cl then time_lo \<le> t \<and> t \<le> time_hi else time_lo \<le> t \<and> t < time_hi)
            then Inr (time_lo, time_hi)
            else Inl (IntervalError t time_lo time_hi cl))"
  unfolding time_lo_def time_hi_def
  using cti_None_eq [OF assms(1-6)]
  by (simp add: cti_Some cti_None [of g id1 id2 cl])

theorem check_time_intersection_spec_witness:
  "check_time_intersection graph_AB ''A'' ''B'' (Some (Num 50)) False = Inr (Num 0, Num 100)
   \<and> check_time_intersection graph_AB ''A'' ''B'' (Some (Num 100)) False
       = Inl (IntervalError (Num 100) (Num 0) (Num 100) False)
   \<and> check_time_intersection graph_AB ''A'' ''B'' (Some (Num 100)) True = Inr (Num 0, Num 100)
   \<and> check_time_intersection graph_AB ''A'' ''B'' (Some (Num 101)) True
       = Inl (IntervalError (Num 101) (Num 0) (Num 100) True)"
proof -
  have a: "deme_map graph_AB ''A'' = Some ex_A" and b: "deme_map graph_AB ''B'' = Some ex_B"
    by (simp_all add: graph_AB_eq)
  have c: "epochs ex_A \<noteq> []" "epochs ex_B \<noteq> []"
    "end_time (last (epochs ex_A)) = Some (Num 100)"
    "end_time (last (epochs ex_B)) = Some (Num 100)"
    by (simp_all add: ep_def ex_A_def ex_B_def)
  note w = check_time_intersection_spec [OF a b c]
  show ?thesis
    using w [of False "Num 50"] w [of False "Num 100"] w [of True "Num 100"]
      w [of True "Num 101"]
    by (simp add: ep_def ex_A_def ex_B_def)
qed

section \<open>Pulses\<close>

lemma graph_A10_eq:
  "graph_A10 = graph0\<lparr>demes := [ex_A10],
     deme_map := [''A'' \<mapsto> ex_A10]\<rparr>"
  by (simp add: graph_A10_def graph0_def eval_defs ep_def ex_A10_def)

lemma graph_anc_eq:
  "graph_anc = graph0\<lparr>demes := [ex_A10,
        ex_B_of_A],
     deme_map := [''A'' \<mapsto> ex_A10,
        ''B'' \<mapsto> ex_B_of_A]\<rparr>"
  by (simp add: graph_anc_def graph_A10_eq graph0_def eval_defs ep_def ex_A10_def ex_B_of_A_def)

lemma cti_AB: "check_time_intersection graph_AB ''A'' ''B'' None False = Inr (Num 0, Num 100)"
  by (simp add: graph_AB_eq check_time_intersection_def getitem_def andthen_def
      deme_start_time_def deme_end_time_def py_min_def ex_A_def ex_B_def ep_def)

text \<open>
  C7. \<^verbatim>\<open>pulse\<close> raises a \<^verbatim>\<open>ValueError\<close> when the source or the destination is not
  in the graph, and when one of the two is the ancestor of the other. Otherwise the
  time is checked against the closed coexistence interval: outside it the interval
  error is raised, inside it the pulse is appended unless the \<^verbatim>\<open>Pulse\<close> constructor
  rejects its fields. A failing call leaves the graph as it was, and a successful call
  appends exactly one pulse with the given fields and changes nothing else.
\<close>

theorem pulse_spec:
  "(\<not> contains g src \<or> \<not> contains g dst \<longrightarrow>
      (\<exists>m. pulse g src dst p t = (Inl (ValueError m), g)))
   \<and> (\<forall>sd dd. deme_map g src = Some sd \<and> deme_map g dst = Some dd
         \<and> (ancestor sd = Some dst \<or> ancestor dd = Some src) \<longrightarrow>
      (\<exists>m. pulse g src dst p t = (Inl (ValueError m), g)))
   \<and> (\<forall>sd dd lo hi. deme_map g src = Some sd \<and> deme_map g dst = Some dd
         \<and> ancestor sd \<noteq> Some dst \<and> ancestor dd \<noteq> Some src
         \<and> check_time_intersection g src dst None True = Inr (lo, hi) \<longrightarrow>
      (if lo \<le> t \<and> t \<le> hi
       then pulse g src dst p t =
              (Inr (), g\<lparr>pulses := pulses g @
                 [\<lparr>source = src, dest = dst, time = t, proportion = p\<rparr>]\<rparr>)
            \<or> (\<exists>e. Pulse src dst t p = Inl e \<and> pulse g src dst p t = (Inl e, g))
       else pulse g src dst p t = (Inl (IntervalError t lo hi True), g)))
   \<and> (\<forall>g'. pulse g src dst p t = (Inr (), g') \<longrightarrow>
         g' = g\<lparr>pulses := pulses g @
                [\<lparr>source = src, dest = dst, time = t, proportion = p\<rparr>]\<rparr>)"
proof (intro conjI allI impI)
  assume "\<not> contains g src \<or> \<not> contains g dst"
  then show "\<exists>m. pulse g src dst p t = (Inl (ValueError m), g)"
    by (auto simp: pulse_def)
next
  fix sd dd
  assume "deme_map g src = Some sd \<and> deme_map g dst = Some dd
    \<and> (ancestor sd = Some dst \<or> ancestor dd = Some src)"
  then show "\<exists>m. pulse g src dst p t = (Inl (ValueError m), g)"
    by (auto simp: pulse_def contains_def getitem_def andthen_def)
next
  fix sd dd lo hi
  assume h: "deme_map g src = Some sd \<and> deme_map g dst = Some dd
         \<and> ancestor sd \<noteq> Some dst \<and> ancestor dd \<noteq> Some src
         \<and> check_time_intersection g src dst None True = Inr (lo, hi)"
  then have c: "check_time_intersection g src dst None False = Inr (lo, hi)"
    by (simp add: cti_None [of g src dst True])
  show "if lo \<le> t \<and> t \<le> hi
       then pulse g src dst p t =
              (Inr (), g\<lparr>pulses := pulses g @
                 [\<lparr>source = src, dest = dst, time = t, proportion = p\<rparr>]\<rparr>)
            \<or> (\<exists>e. Pulse src dst t p = Inl e \<and> pulse g src dst p t = (Inl e, g))
       else pulse g src dst p t = (Inl (IntervalError t lo hi True), g)"
    using h c
    by (cases "Pulse src dst t p")
       (auto simp: pulse_def contains_def getitem_def andthen_def cti_Some dest: Pulse_Inr)
next
  fix g'
  assume "pulse g src dst p t = (Inr (), g')"
  then show "g' = g\<lparr>pulses := pulses g @
                [\<lparr>source = src, dest = dst, time = t, proportion = p\<rparr>]\<rparr>"
    by (rule pulse_Inr)
qed

lemma graph_AB_map: "deme_map graph_AB ''A'' = Some ex_A" "deme_map graph_AB ''B'' = Some ex_B"
  "deme_map graph_AB ''Z'' = None"
  by (simp_all add: graph_AB_eq)

lemma graph_anc_map: "deme_map graph_anc ''A'' = Some ex_A10"
  "deme_map graph_anc ''B'' = Some ex_B_of_A"
  by (simp_all add: graph_anc_eq)

theorem pulse_spec_witness:
  "pulse graph_AB ''A'' ''B'' (Num (3 / 10)) (Num 50) =
     (Inr (), graph_AB\<lparr>pulses := pulses graph_AB @
        [\<lparr>source = ''A'', dest = ''B'', time = Num 50, proportion = Num (3 / 10)\<rparr>]\<rparr>)
   \<and> pulse graph_AB ''A'' ''B'' (Num (3 / 10)) (Num 101) =
       (Inl (IntervalError (Num 101) (Num 0) (Num 100) True), graph_AB)
   \<and> (\<exists>m. pulse graph_anc ''A'' ''B'' (Num (3 / 10)) (Num 100) = (Inl (ValueError m), graph_anc))
   \<and> (\<exists>m. pulse graph_AB ''A'' ''Z'' (Num (3 / 10)) (Num 100) = (Inl (ValueError m), graph_AB))"
proof -
  note missing = pulse_spec [THEN conjunct1, rule_format]
  note related = pulse_spec [THEN conjunct2, THEN conjunct1, rule_format]
  note timed = pulse_spec [THEN conjunct2, THEN conjunct2, THEN conjunct1, rule_format]
  have p: "Pulse ''A'' ''B'' (Num 50) (Num (3 / 10)) =
      Inr \<lparr>source = ''A'', dest = ''B'', time = Num 50, proportion = Num (3 / 10)\<rparr>"
    by (simp add: ctor_defs)
  have c: "check_time_intersection graph_AB ''A'' ''B'' None True = Inr (Num 0, Num 100)"
    by (simp add: cti_AB cti_None [of _ _ _ True])
  have h: "deme_map graph_AB ''A'' = Some ex_A \<and> deme_map graph_AB ''B'' = Some ex_B
      \<and> ancestor ex_A \<noteq> Some ''B'' \<and> ancestor ex_B \<noteq> Some ''A''
      \<and> check_time_intersection graph_AB ''A'' ''B'' None True = Inr (Num 0, Num 100)"
    by (simp add: graph_AB_map c ex_A_def ex_B_def)
  have 1: "pulse graph_AB ''A'' ''B'' (Num (3 / 10)) (Num 50) =
     (Inr (), graph_AB\<lparr>pulses := pulses graph_AB @
        [\<lparr>source = ''A'', dest = ''B'', time = Num 50, proportion = Num (3 / 10)\<rparr>]\<rparr>)"
    using timed [OF h, of "Num 50" "Num (3 / 10)"] p by simp
  have 2: "pulse graph_AB ''A'' ''B'' (Num (3 / 10)) (Num 101) =
       (Inl (IntervalError (Num 101) (Num 0) (Num 100) True), graph_AB)"
    using timed [OF h, of "Num 101" "Num (3 / 10)"] by simp
  have 3: "\<exists>m. pulse graph_anc ''A'' ''B'' (Num (3 / 10)) (Num 100) = (Inl (ValueError m), graph_anc)"
    using related [where g = graph_anc and src = "''A''" and dst = "''B''"
        and sd = "ex_A10"
        and dd = "ex_B_of_A"]
    by (simp add: graph_anc_map ex_B_of_A_def)
  have 4: "\<exists>m. pulse graph_AB ''A'' ''Z'' (Num (3 / 10)) (Num 100) = (Inl (ValueError m), graph_AB)"
    by (rule missing) (simp add: contains_def graph_AB_map)
  from 1 2 3 4 show ?thesis by blast
qed

section \<open>Failing calls\<close>











section \<open>Registering demes\<close>

lemma add_epoch_ids:
  "add_epoch d e = (r, d') \<Longrightarrow> deme_id d' = deme_id d \<and> ancestor d' = ancestor d"
  by (auto simp: add_epoch_def Let_def split: if_splits)

lemma add_epochs_ids:
  "add_epochs d es = Inr d' \<Longrightarrow> deme_id d' = deme_id d \<and> ancestor d' = ancestor d"
proof (induction es arbitrary: d)
  case Nil
  then show ?case by simp
next
  case (Cons e es)
  obtain r d1 where a: "add_epoch d e = (r, d1)" by (cases "add_epoch d e")
  with Cons.prems obtain u where "r = Inr u" "add_epochs d1 es = Inr d'"
    by (cases r) auto
  with Cons.IH [of d1] add_epoch_ids [OF a] show ?case by simp
qed

lemma build_ids:
  assumes "andthen (Epoch st et isz fsz) (\<lambda>ep.
             andthen (Deme i anc [ep]) (\<lambda>d.
               case eps of None \<Rightarrow> Inr d | Some es \<Rightarrow> add_epochs d es)) = Inr d'"
  shows "deme_id d' = i \<and> ancestor d' = anc"
proof -
  from assms obtain e d where e: "Epoch st et isz fsz = Inr e"
    and d: "Deme i anc [e] = Inr d"
    and r: "(case eps of None \<Rightarrow> Inr d | Some es \<Rightarrow> add_epochs d es) = Inr d'"
    by (auto simp: andthen_Inr_iff)
  from Deme_Inr [OF d] have di: "deme_id d = i" "ancestor d = anc" by simp_all
  show ?thesis
  proof (cases eps)
    case None
    with r di show ?thesis by simp
  next
    case (Some es)
    with r have "add_epochs d es = Inr d'" by simp
    from add_epochs_ids [OF this] di show ?thesis by simp
  qed
qed

lemma deme_Inr_id:
  assumes "deme g i anc st et isz fsz eps = (Inr u, g')"
  shows "\<exists>d. deme_id d = i \<and> ancestor d = anc
        \<and> g' = g\<lparr>deme_map := (deme_map g)(i \<mapsto> d), demes := demes g @ [d]\<rparr>"
  using assms
  by (auto simp: deme_def Let_def split: option.splits sum.splits dest!: build_ids)

lemma graph_AA_eq:
  "graph_AA = graph0\<lparr>demes := [ex_A, ex_A5], deme_map := [''A'' \<mapsto> ex_A5]\<rparr>"
  by (simp add: graph_AA_def graph0_def eval_defs ep_def ex_A_def ex_A5_def)

lemma graph_A_eq: "graph_A = graph0\<lparr>demes := [ex_A], deme_map := [''A'' \<mapsto> ex_A]\<rparr>"
  by (simp add: graph_A_def graph0_def eval_defs ep_def ex_A_def)

lemma deme_A_again:
  "deme graph_A ''A'' None (Num 5) (Num 100) None None None = (Inr (), graph_AA)"
  by (simp add: graph_A_eq graph_AA_eq ex_A_def ex_A5_def ep_def)
     (simp add: graph0_def eval_defs)

text \<open>
  C10. A successful \<^verbatim>\<open>deme\<close> call appends one deme with the given id to the list of
  demes and sets the index entry of that id to it, so that a lookup by the id yields
  the deme registered last. The ids in the list stay pairwise different exactly when
  they were so before and the new id was not in the list: the list holds one deme for
  every successful call, also for an id registered again.
\<close>

theorem deme_registration:
  "\<forall>g'. deme g i anc st et isz fsz eps = (Inr (), g') \<longrightarrow>
     (\<exists>d. deme_id d = i
        \<and> demes g' = demes g @ [d]
        \<and> deme_map g' = (deme_map g)(i \<mapsto> d)
        \<and> getitem g' i = Inr d
        \<and> (distinct (map deme_id (demes g')) =
             (distinct (map deme_id (demes g)) \<and> i \<notin> set (map deme_id (demes g)))))"
proof (intro allI impI)
  fix g'
  assume "deme g i anc st et isz fsz eps = (Inr (), g')"
  from deme_Inr_id [OF this] obtain d where d: "deme_id d = i"
    "g' = g\<lparr>deme_map := (deme_map g)(i \<mapsto> d), demes := demes g @ [d]\<rparr>"
    by blast
  then show "\<exists>d. deme_id d = i
        \<and> demes g' = demes g @ [d]
        \<and> deme_map g' = (deme_map g)(i \<mapsto> d)
        \<and> getitem g' i = Inr d
        \<and> (distinct (map deme_id (demes g')) =
             (distinct (map deme_id (demes g)) \<and> i \<notin> set (map deme_id (demes g))))"
    by (intro exI [of _ d]) (auto simp: getitem_def)
qed

theorem deme_registration_witness:
  "\<exists>d. deme_id d = ''A''
      \<and> demes graph_AA = demes graph_A @ [d]
      \<and> getitem graph_AA ''A'' = Inr d
      \<and> \<not> distinct (map deme_id (demes graph_AA))"
proof -
  from deme_registration [rule_format, OF deme_A_again]
  obtain d where d: "deme_id d = ''A''" "demes graph_AA = demes graph_A @ [d]"
    "getitem graph_AA ''A'' = Inr d"
    "distinct (map deme_id (demes graph_AA)) =
       (distinct (map deme_id (demes graph_A)) \<and> ''A'' \<notin> set (map deme_id (demes graph_A)))"
    by blast
  have "''A'' \<in> set (map deme_id (demes graph_A))"
    by (simp add: graph_A_eq ex_A_def)
  with d show ?thesis by blast
qed

text \<open>
  Registering the id \<open>A\<close> twice succeeds and leaves two demes with the id \<open>A\<close> in the
  list; the index yields the second.
\<close>

theorem duplicate_id_in_list:
  "fst (deme (snd (deme graph0 ''A'' None (Num 0) (Num 100) None None None))
            ''A'' None (Num 5) (Num 100) None None None) = Inr ()
   \<and> map deme_id (demes graph_AA) = [''A'', ''A'']
   \<and> \<not> distinct (map deme_id (demes graph_AA))
   \<and> getitem graph_AA ''A'' = Inr ex_A5"
  by (simp add: graph_AA_eq getitem_def ex_A_def ex_A5_def)
     (simp add: graph0_def eval_defs)

section \<open>Epoch intervals\<close>

text \<open>
  Appending an epoch keeps consecutive epochs contiguous: each epoch ends where the
  next one starts.
\<close>

lemma add_epoch_contiguous:
  assumes "add_epoch d e = (Inr u, d')"
    and "\<forall>k. Suc k < length (epochs d) \<longrightarrow>
           end_time (epochs d ! k) = Some (start_time (epochs d ! Suc k))"
  shows "\<forall>k. Suc k < length (epochs d') \<longrightarrow>
           end_time (epochs d' ! k) = Some (start_time (epochs d' ! Suc k))"
proof (intro allI impI)
  fix k
  assume k: "Suc k < length (epochs d')"
  let ?n = "length (epochs d)"
  from assms(1) obtain e3 where ne: "epochs d \<noteq> []"
    and d': "epochs d' = (epochs d)[?n - 1 := (epochs d ! (?n - 1))\<lparr>end_time := Some (start_time e)\<rparr>] @ [e3]"
    and e3: "start_time e3 = start_time e"
    by (auto simp: add_epoch_def Let_def split: if_splits)
  from k d' have kn: "k < ?n" by simp
  show "end_time (epochs d' ! k) = Some (start_time (epochs d' ! Suc k))"
  proof (cases "Suc k < ?n")
    case True
    with assms(2) have "end_time (epochs d ! k) = Some (start_time (epochs d ! Suc k))"
      by blast
    with True d' show ?thesis
      by (cases "Suc k = ?n - 1") (simp_all add: nth_append nth_list_update)
  next
    case False
    with kn have "k = ?n - 1" by simp
    with d' e3 ne kn show ?thesis
      by (simp add: nth_append nth_list_update)
  qed
qed

text \<open>
  C2. \<^verbatim>\<open>deme("A", epochs=[Epoch(start_time=0, initial_size=50)])\<close> on a graph with
  \<^verbatim>\<open>default_Ne=100\<close> succeeds, and the first epoch of the new deme then starts and ends
  at time 0. \<^verbatim>\<open>deme("A", end_time=50, epochs=[Epoch(start_time=100, initial_size=50)])\<close>
  succeeds too, and the last epoch of the new deme then starts at 100 and ends at 50.
  In both demes consecutive epochs are contiguous.
\<close>

theorem epoch_not_before_its_end:
  "Epoch (Num 0) None (Some (Num 50)) None = Inr ex_e0
   \<and> fst (deme graph0 ''A'' None (Num 0) PlusInf None None (Some [ex_e0])) = Inr ()
   \<and> map (\<lambda>e. (start_time e, end_time e))
        (epochs (last (demes (snd (deme graph0 ''A'' None (Num 0) PlusInf None None
           (Some [ex_e0])))))) =
       [(Num 0, Some (Num 0)), (Num 0, Some PlusInf)]
   \<and> Epoch (Num 100) None (Some (Num 50)) None = Inr ex_e100
   \<and> fst (deme graph0 ''A'' None (Num 0) (Num 50) None None (Some [ex_e100])) = Inr ()
   \<and> map (\<lambda>e. (start_time e, end_time e))
        (epochs (last (demes (snd (deme graph0 ''A'' None (Num 0) (Num 50) None None
           (Some [ex_e100])))))) =
       [(Num 0, Some (Num 100)), (Num 100, Some (Num 50))]"
  by (simp add: graph0_def eval_defs ex_e0_def ex_e100_def add_epoch_def)

section \<open>Compact representation of the demes\<close>

lemma epoch_dict_closed:
  "epoch_dict es j =
     (if start_time (es ! j) > Num 0 then [(''start_time'', PyNum (start_time (es ! j)))]
      else []) @
     (if initial_size (es ! j) = final_size (es ! j)
      then [(''initial_size'',
             case initial_size (es ! j) of None \<Rightarrow> PyNone | Some n \<Rightarrow> PyNum n)]
      else [(''final_size'',
             case final_size (es ! j) of None \<Rightarrow> PyNone | Some n \<Rightarrow> PyNum n)] @
           (if j = 0 \<or> j = length es - 1
               \<or> initial_size (es ! j) \<noteq> final_size (es ! (j - 1))
            then [(''initial_size'',
                   case initial_size (es ! j) of None \<Rightarrow> PyNone | Some n \<Rightarrow> PyNum n)]
            else []))"
  by (cases "initial_size (es ! j)"; cases "final_size (es ! j)")
     (simp_all add: epoch_dict_def Let_def)

lemma deme_dict_closed:
  "deme_dict x =
     (if epochs x = [] then Inl AssertionError
      else Inr (
        (case ancestor x of None \<Rightarrow> [] | Some a \<Rightarrow> [(''ancestor'', PyStr a)]) @
        (if start_time (epochs x ! 0) > Num 0
         then [(''start_time'', PyNum (start_time (epochs x ! 0)))] else []) @
        [(''initial_size'',
          case initial_size (epochs x ! 0) of None \<Rightarrow> PyNone | Some n \<Rightarrow> PyNum n)] @
        (if final_size (epochs x ! 0) \<noteq> initial_size (epochs x ! 0)
         then [(''final_size'',
                case final_size (epochs x ! 0) of None \<Rightarrow> PyNone | Some n \<Rightarrow> PyNum n)]
         else []) @
        (if length (epochs x) > 1
         then [(''epochs'', PyList (map (\<lambda>j. PyDict (epoch_dict (epochs x) j))
                                       [1..<length (epochs x)]))]
         else [])))"
  by (cases "ancestor x"; cases "initial_size (epochs x ! 0)";
      cases "final_size (epochs x ! 0)")
     (simp_all add: deme_dict_def Let_def e_list_def drop_map)


lemma find_append:
  "find P (xs @ ys) = (case find P xs of None \<Rightarrow> find P ys | Some x \<Rightarrow> Some x)"
  by (induction xs) auto

lemma find_rev_last:
  assumes "k < length xs" and "P (xs ! k)"
    and "\<forall>k'. k < k' \<and> k' < length xs \<longrightarrow> \<not> P (xs ! k')"
  shows "find P (rev xs) = Some (xs ! k)"
proof -
  have xs: "xs = take k xs @ xs ! k # drop (Suc k) xs"
    using assms(1) by (simp add: id_take_nth_drop)
  have "find P (rev (drop (Suc k) xs)) = None"
    using assms(3) by (auto simp: find_None_iff in_set_conv_nth)
  then have "find P (rev (take k xs @ xs ! k # drop (Suc k) xs)) = Some (xs ! k)"
    using assms(2) by (simp add: find_append)
  with xs show ?thesis by simp
qed

lemma demes_dict_map_of:
  "demes_dict ds acc = Inr dm \<Longrightarrow>
     (\<forall>x \<in> set ds. \<exists>dd. deme_dict x = Inr dd)
     \<and> map_of dm i =
         (case find (\<lambda>x. deme_id x = i) (rev ds) of
            None \<Rightarrow> map_of acc i
          | Some x \<Rightarrow> (case deme_dict x of Inl e \<Rightarrow> None | Inr dd \<Rightarrow> Some (PyDict dd)))"
proof (induction ds arbitrary: acc)
  case Nil
  then show ?case by simp
next
  case (Cons d ds)
  from Cons.prems obtain dd where dd: "deme_dict d = Inr dd"
    and rest: "demes_dict ds (AList.update (deme_id d) (PyDict dd) acc) = Inr dm"
    by (auto simp: andthen_Inr_iff)
  from Cons.IH [OF rest] dd show ?case
    by (auto simp: find_append update_conv' split: option.splits)
qed

lemma asdict_compact_demes_entry:
  assumes "asdict_compact g = Inr d"
  shows "demes g \<noteq> [] \<and> (\<exists>dm. demes_dict (demes g) [] = Inr dm
            \<and> map_of d ''demes'' = Some (PyDict dm))"
proof -
  from assms have ne: "demes g \<noteq> []"
    by (auto simp: asdict_compact_def Let_def split: if_splits)
  with assms obtain dm where dm: "demes_dict (demes g) [] = Inr dm"
    by (cases "demes_dict (demes g) []") (auto simp: asdict_compact_def Let_def andthen_def)
  from assms ne dm have "map_of d ''demes'' = Some (PyDict dm)"
    by (auto simp: asdict_compact_def Let_def andthen_def update_conv'
        split: if_splits sum.splits option.splits)
  with ne dm show ?thesis by blast
qed


lemma graph_three_eq:
  "Epoch (Num 10) None None (Some (Num 200)) = Inr ex_e10"
  "Epoch (Num 20) None (Some (Num 200)) None = Inr ex_e20"
  "graph_three = graph0\<lparr>demes := [ex_d3], deme_map := [''A'' \<mapsto> ex_d3]\<rparr>"
  by (simp_all add: graph_three_def graph0_def eval_defs ep_def ex_d3_def ex_e10_def
      ex_e20_def add_epoch_def)

lemma graph_shadow_eq:
  "graph_shadow = graph0\<lparr>demes := [ex_d3, ex_A_inf], deme_map := [''A'' \<mapsto> ex_A_inf]\<rparr>"
  by (simp add: graph_shadow_def graph_three_eq)
     (simp add: graph0_def eval_defs ep_def ex_A_inf_def)

lemmas compact_eval = asdict_compact_def deme_dict_def epoch_dict_def e_list_def Let_def
  andthen_def upt_rec

lemma asdict_compact_three:
  "asdict_compact graph_three =
     Inr [(''description'', PyStr ''demo''), (''time_units'', PyStr ''generations''),
          (''generation_time'', PyNum (Num 1)), (''default_Ne'', PyNum (Num 100)),
          (''demes'', PyDict [(''A'', PyDict
             [(''initial_size'', PyNum (Num 100)),
              (''epochs'', PyList
                 [PyDict [(''start_time'', PyNum (Num 10)), (''final_size'', PyNum (Num 200))],
                  PyDict [(''start_time'', PyNum (Num 20)),
                          (''initial_size'', PyNum (Num 200))]])])])]"
  by (simp add: graph_three_eq graph0_def ex_d3_def ep_def compact_eval)

text \<open>
  C9. When \<^verbatim>\<open>asdict_compact\<close> returns, its \<^verbatim>\<open>demes\<close> entry holds, for every deme of
  the graph that is the last one registered under its id, an entry under that id. The
  first epoch is inlined into the entry: \<^verbatim>\<open>ancestor\<close> if set, \<^verbatim>\<open>start_time\<close> if the
  first epoch starts after 0, its \<^verbatim>\<open>initial_size\<close>, and its \<^verbatim>\<open>final_size\<close> if
  different. If the deme has more than one epoch, the entry ends with the list
  \<^verbatim>\<open>epochs\<close> of the dicts of the epochs after the first, in order. The dict of such an
  epoch holds \<^verbatim>\<open>start_time\<close> exactly when the start time is greater than 0 (so only
  when it is nonzero); then only \<^verbatim>\<open>initial_size\<close> when initial and final size are
  equal; otherwise \<^verbatim>\<open>final_size\<close>, followed by \<^verbatim>\<open>initial_size\<close> exactly when the epoch
  is the first or the last of the deme's epochs or its initial size differs from the
  final size of the epoch before it. Each value is the value of the epoch's field.
\<close>

theorem asdict_compact_demes:
  fixes g :: deme_graph
  assumes "asdict_compact g = Inr d"
  defines "val \<equiv> \<lambda>s. case s of None \<Rightarrow> PyNone | Some n \<Rightarrow> PyNum n"
  defines "epoch_entry \<equiv> \<lambda>es j.
     (if start_time (es ! j) > Num 0 then [(''start_time'', PyNum (start_time (es ! j)))]
      else []) @
     (if initial_size (es ! j) = final_size (es ! j)
      then [(''initial_size'', val (initial_size (es ! j)))]
      else [(''final_size'', val (final_size (es ! j)))] @
           (if j = 0 \<or> j = length es - 1
               \<or> initial_size (es ! j) \<noteq> final_size (es ! (j - 1))
            then [(''initial_size'', val (initial_size (es ! j)))]
            else []))"
  defines "deme_entry \<equiv> \<lambda>x.
     (case ancestor x of None \<Rightarrow> [] | Some a \<Rightarrow> [(''ancestor'', PyStr a)]) @
     (if start_time (epochs x ! 0) > Num 0
      then [(''start_time'', PyNum (start_time (epochs x ! 0)))] else []) @
     [(''initial_size'', val (initial_size (epochs x ! 0)))] @
     (if final_size (epochs x ! 0) \<noteq> initial_size (epochs x ! 0)
      then [(''final_size'', val (final_size (epochs x ! 0)))] else []) @
     (if length (epochs x) > 1
      then [(''epochs'', PyList (map (\<lambda>j. PyDict (epoch_entry (epochs x) j))
                                    [1..<length (epochs x)]))]
      else [])"
  shows "\<exists>dm. map_of d ''demes'' = Some (PyDict dm)
     \<and> (\<forall>k. k < length (demes g)
            \<and> (\<forall>k'. k < k' \<and> k' < length (demes g) \<longrightarrow>
                  deme_id (demes g ! k') \<noteq> deme_id (demes g ! k)) \<longrightarrow>
          epochs (demes g ! k) \<noteq> []
          \<and> map_of dm (deme_id (demes g ! k)) = Some (PyDict (deme_entry (demes g ! k))))"
proof -
  from asdict_compact_demes_entry [OF assms(1)] obtain dm where
    dm: "demes_dict (demes g) [] = Inr dm" and d: "map_of d ''demes'' = Some (PyDict dm)"
    by blast
  have ee: "epoch_dict es j = epoch_entry es j" for es j
    unfolding epoch_entry_def val_def by (rule epoch_dict_closed)
  have de: "deme_dict x = (if epochs x = [] then Inl AssertionError else Inr (deme_entry x))"
    for x
    unfolding deme_entry_def val_def ee [symmetric] by (rule deme_dict_closed)
  have "epochs (demes g ! k) \<noteq> []
      \<and> map_of dm (deme_id (demes g ! k)) = Some (PyDict (deme_entry (demes g ! k)))"
    if k: "k < length (demes g)"
      and last: "\<forall>k'. k < k' \<and> k' < length (demes g) \<longrightarrow>
                  deme_id (demes g ! k') \<noteq> deme_id (demes g ! k)" for k
  proof -
    let ?x = "demes g ! k"
    from k have "?x \<in> set (demes g)" by simp
    with demes_dict_map_of [OF dm] obtain dd where dd: "deme_dict ?x = Inr dd" by blast
    with de [of ?x] have ne: "epochs ?x \<noteq> []" and dd': "dd = deme_entry ?x"
      by (auto split: if_splits)
    have "find (\<lambda>x. deme_id x = deme_id ?x) (rev (demes g)) = Some ?x"
      using k last by (intro find_rev_last) auto
    with demes_dict_map_of [OF dm, of "deme_id ?x"] dd dd' ne show ?thesis by simp
  qed
  with d show ?thesis by blast
qed


theorem asdict_compact_demes_witness:
  "\<exists>d dm. asdict_compact graph_three = Inr d
     \<and> map_of d ''demes'' = Some (PyDict dm)
     \<and> map_of dm ''A'' = Some (PyDict
          [(''initial_size'', PyNum (Num 100)),
           (''epochs'', PyList
              [PyDict [(''start_time'', PyNum (Num 10)), (''final_size'', PyNum (Num 200))],
               PyDict [(''start_time'', PyNum (Num 20)),
                       (''initial_size'', PyNum (Num 200))]])])"
proof -
  from asdict_compact_demes [OF asdict_compact_three] obtain dm where
    dm: "map_of [(''description'', PyStr ''demo''), (''time_units'', PyStr ''generations''),
          (''generation_time'', PyNum (Num 1)), (''default_Ne'', PyNum (Num 100)),
          (''demes'', PyDict [(''A'', PyDict
             [(''initial_size'', PyNum (Num 100)),
              (''epochs'', PyList
                 [PyDict [(''start_time'', PyNum (Num 10)), (''final_size'', PyNum (Num 200))],
                  PyDict [(''start_time'', PyNum (Num 20)),
                          (''initial_size'', PyNum (Num 200))]])])])] ''demes''
         = Some (PyDict dm)"
    and all: "\<And>k. k < length (demes graph_three)
            \<and> (\<forall>k'. k < k' \<and> k' < length (demes graph_three) \<longrightarrow>
                  deme_id (demes graph_three ! k') \<noteq> deme_id (demes graph_three ! k)) \<Longrightarrow>
          epochs (demes graph_three ! k) \<noteq> []
          \<and> map_of dm (deme_id (demes graph_three ! k)) = Some (PyDict
     ((case ancestor (demes graph_three ! k) of None \<Rightarrow> [] | Some a \<Rightarrow> [(''ancestor'', PyStr a)]) @
     (if start_time (epochs (demes graph_three ! k) ! 0) > Num 0
      then [(''start_time'', PyNum (start_time (epochs (demes graph_three ! k) ! 0)))] else []) @
     [(''initial_size'', case initial_size (epochs (demes graph_three ! k) ! 0) of None \<Rightarrow> PyNone | Some n \<Rightarrow> PyNum n)] @
     (if final_size (epochs (demes graph_three ! k) ! 0) \<noteq> initial_size (epochs (demes graph_three ! k) ! 0)
      then [(''final_size'', case final_size (epochs (demes graph_three ! k) ! 0) of None \<Rightarrow> PyNone | Some n \<Rightarrow> PyNum n)] else []) @
     (if length (epochs (demes graph_three ! k)) > 1
      then [(''epochs'', PyList (map (\<lambda>j. PyDict (
     (if start_time ((epochs (demes graph_three ! k)) ! j) > Num 0 then [(''start_time'', PyNum (start_time ((epochs (demes graph_three ! k)) ! j)))]
      else []) @
     (if initial_size ((epochs (demes graph_three ! k)) ! j) = final_size ((epochs (demes graph_three ! k)) ! j)
      then [(''initial_size'', case initial_size ((epochs (demes graph_three ! k)) ! j) of None \<Rightarrow> PyNone | Some n \<Rightarrow> PyNum n)]
      else [(''final_size'', case final_size ((epochs (demes graph_three ! k)) ! j) of None \<Rightarrow> PyNone | Some n \<Rightarrow> PyNum n)] @
           (if j = 0 \<or> j = length (epochs (demes graph_three ! k)) - 1
               \<or> initial_size ((epochs (demes graph_three ! k)) ! j) \<noteq> final_size ((epochs (demes graph_three ! k)) ! (j - 1))
            then [(''initial_size'', case initial_size ((epochs (demes graph_three ! k)) ! j) of None \<Rightarrow> PyNone | Some n \<Rightarrow> PyNum n)]
            else []))))
                                    [1..<length (epochs (demes graph_three ! k))]))]
      else [])))"
    by blast
  have pre: "0 < length (demes graph_three)
      \<and> (\<forall>k'. 0 < k' \<and> k' < length (demes graph_three) \<longrightarrow>
            deme_id (demes graph_three ! k') \<noteq> deme_id (demes graph_three ! 0))"
    by (auto simp: graph_three_eq)
  from all [OF pre] have "map_of dm ''A'' = Some (PyDict
          [(''initial_size'', PyNum (Num 100)),
           (''epochs'', PyList
              [PyDict [(''start_time'', PyNum (Num 10)), (''final_size'', PyNum (Num 200))],
               PyDict [(''start_time'', PyNum (Num 20)),
                       (''initial_size'', PyNum (Num 200))]])])"
    by (simp add: graph_three_eq ex_d3_def ep_def upt_rec)
  with dm asdict_compact_three show ?thesis by simp
qed


text \<open>
  A deme whose id is registered again has no entry of its own. \<open>A\<close> is registered
  with three epochs and then again with one: the only entry is that of the second
  deme, and the epochs of the first are not emitted.
\<close>

theorem asdict_compact_shadowed:
  "map deme_id (demes graph_shadow) = [''A'', ''A'']
   \<and> map (\<lambda>x. length (epochs x)) (demes graph_shadow) = [3, 1]
   \<and> asdict_compact graph_shadow =
       Inr [(''description'', PyStr ''demo''), (''time_units'', PyStr ''generations''),
            (''generation_time'', PyNum (Num 1)), (''default_Ne'', PyNum (Num 100)),
            (''demes'', PyDict [(''A'', PyDict [(''initial_size'', PyNum (Num 100))])])]"
  by (simp add: graph_shadow_eq graph0_def ex_d3_def ex_A_inf_def ep_def compact_eval)

section \<open>Creating a deme\<close>

lemma add_epoch_keeps:
  assumes "add_epoch d e = (Inr u, d')"
  shows "epochs d \<noteq> [] \<and> epochs d' \<noteq> []
       \<and> initial_size (hd (epochs d')) = initial_size (hd (epochs d))
       \<and> (end_time e = None \<longrightarrow> end_time (last (epochs d')) = end_time (last (epochs d)))"
proof -
  from assms have ne: "epochs d \<noteq> []"
    by (auto simp: add_epoch_def split: if_splits)
  then obtain x xs where xs: "epochs d = x # xs" by (cases "epochs d") auto
  from assms ne show ?thesis
    by (cases xs rule: rev_cases)
       (auto simp: add_epoch_def Let_def xs last_conv_nth nth_append hd_append
          split: if_splits)
qed

lemma add_epochs_keeps:
  "add_epochs d es = Inr d' \<Longrightarrow> epochs d \<noteq> [] \<Longrightarrow>
     epochs d' \<noteq> []
     \<and> initial_size (hd (epochs d')) = initial_size (hd (epochs d))
     \<and> (list_all (\<lambda>e. end_time e = None) es \<longrightarrow>
          end_time (last (epochs d')) = end_time (last (epochs d)))"
proof (induction es arbitrary: d)
  case Nil
  then show ?case by simp
next
  case (Cons e es)
  obtain r d1 where a: "add_epoch d e = (r, d1)" by (cases "add_epoch d e")
  with Cons.prems obtain u where r: "r = Inr u" and rest: "add_epochs d1 es = Inr d'"
    by (cases r) auto
  from a r have a': "add_epoch d e = (Inr u, d1)" by simp
  from add_epoch_keeps [OF a'] Cons.IH [OF rest] show ?case by auto
qed


lemma deme_Inr_full:
  assumes "deme g i anc st et isz fsz eps = (Inr u, g')"
  shows "\<exists>isz' et' d.
       (case isz of None \<Rightarrow> default_Ne g | Some n \<Rightarrow> Some n) = Some isz'
     \<and> (case anc of None \<Rightarrow> et' = et
         | Some a \<Rightarrow> (\<exists>ad. deme_map g a = Some ad \<and> epochs ad \<noteq> []
                        \<and> et' = start_time (hd (epochs ad))))
     \<and> (case eps of
           None \<Rightarrow> Inr \<lparr>deme_id = i, ancestor = anc,
                     epochs = [\<lparr>start_time = st, end_time = Some et',
                       initial_size = Some isz',
                       final_size = Some (case fsz of None \<Rightarrow> isz' | Some f \<Rightarrow> f)\<rparr>]\<rparr>
         | Some es \<Rightarrow> add_epochs \<lparr>deme_id = i, ancestor = anc,
                     epochs = [\<lparr>start_time = st, end_time = Some et',
                       initial_size = Some isz',
                       final_size = Some (case fsz of None \<Rightarrow> isz' | Some f \<Rightarrow> f)\<rparr>]\<rparr> es)
         = Inr d
     \<and> g' = g\<lparr>deme_map := (deme_map g)(i \<mapsto> d), demes := demes g @ [d]\<rparr>"
proof -
  from assms obtain isz' where isz': "(case isz of None \<Rightarrow> default_Ne g | Some n \<Rightarrow> Some n) = Some isz'"
    by (auto simp: deme_def split: option.splits)
  let ?fsz = "case fsz of None \<Rightarrow> isz' | Some f \<Rightarrow> f"
  let ?anc = "case anc of None \<Rightarrow> Inr et
                 | Some a \<Rightarrow>
                     if \<not> contains g a then Inl (ValueError (a @ '' not in deme graph''))
                     else andthen (getitem g a) (\<lambda>ad.
                       case epochs ad of [] \<Rightarrow> Inl IndexError
                       | e0 # _ \<Rightarrow> Inr (start_time e0))"
  from assms isz' obtain et' where et': "?anc = Inr et'"
    by (cases ?anc) (auto simp: deme_def Let_def)
  let ?build = "andthen (Epoch st (Some et') (Some isz') (Some ?fsz)) (\<lambda>ep.
                     andthen (Deme i anc [ep]) (\<lambda>d.
                       case eps of None \<Rightarrow> Inr d | Some es \<Rightarrow> add_epochs d es))"
  from assms isz' et' obtain d where d: "?build = Inr d"
    and g': "g' = g\<lparr>deme_map := (deme_map g)(deme_id d \<mapsto> d), demes := demes g @ [d]\<rparr>"
    by (cases ?build) (auto simp: deme_def Let_def)
  from build_ids [OF d] have di: "deme_id d = i" by simp
  from d obtain e0 d0 where e0: "Epoch st (Some et') (Some isz') (Some ?fsz) = Inr e0"
    and d0: "Deme i anc [e0] = Inr d0"
    and r: "(case eps of None \<Rightarrow> Inr d0 | Some es \<Rightarrow> add_epochs d0 es) = Inr d"
    by (auto simp: andthen_Inr_iff)
  from Epoch_Inr [OF e0] Deme_Inr [OF d0]
  have d0_eq: "d0 = \<lparr>deme_id = i, ancestor = anc,
                     epochs = [\<lparr>start_time = st, end_time = Some et',
                       initial_size = Some isz', final_size = Some ?fsz\<rparr>]\<rparr>"
    by simp
  have anc_ok: "case anc of None \<Rightarrow> et' = et
         | Some a \<Rightarrow> (\<exists>ad. deme_map g a = Some ad \<and> epochs ad \<noteq> []
                        \<and> et' = start_time (hd (epochs ad)))"
    using et'
    by (auto simp: contains_def getitem_def andthen_def
        split: option.splits if_splits list.splits)
  from isz' anc_ok r d0_eq g' di show ?thesis by blast
qed

text \<open>
  What \<^verbatim>\<open>deme\<close> does, for additional epochs that are objects of their own: it raises
  a \<^verbatim>\<open>ValueError\<close> when \<^verbatim>\<open>initial_size\<close> is omitted and the graph has no
  \<^verbatim>\<open>default_Ne\<close>, and when the ancestor given is not in the graph. A successful call
  registers a deme under the id whose first epoch has the given initial size, or
  \<^verbatim>\<open>default_Ne\<close> when none is given. With an ancestor, the ancestor is in the graph,
  and the new deme's end time is the ancestor's start time, whatever \<^verbatim>\<open>end_time\<close>
  was supplied, when no additional epoch carries an end time of its own.
\<close>

theorem deme_spec:
  "(isz = None \<and> default_Ne g = None \<longrightarrow>
      deme g i anc st et isz fsz eps =
        (Inl (ValueError (''must set initial_size for '' @ i)), g))
   \<and> (\<forall>a. anc = Some a \<and> deme_map g a = None \<longrightarrow>
         (\<exists>m. deme g i anc st et isz fsz eps = (Inl (ValueError m), g)))
   \<and> (\<forall>g'. deme g i anc st et isz fsz eps = (Inr (), g') \<longrightarrow>
         (\<exists>d. getitem g' i = Inr d \<and> demes g' = demes g @ [d] \<and> epochs d \<noteq> []
            \<and> initial_size (hd (epochs d)) =
                (case isz of None \<Rightarrow> default_Ne g | Some n \<Rightarrow> Some n)
            \<and> (\<forall>a. anc = Some a \<longrightarrow>
                 (\<exists>ad. deme_map g a = Some ad \<and> epochs ad \<noteq> []
                    \<and> (list_all (\<lambda>e. end_time e = None)
                          (case eps of None \<Rightarrow> [] | Some es \<Rightarrow> es) \<longrightarrow>
                        deme_end_time d = Inr (Some (start_time (hd (epochs ad)))))))))"
proof (intro conjI allI impI)
  assume "isz = None \<and> default_Ne g = None"
  then show "deme g i anc st et isz fsz eps =
        (Inl (ValueError (''must set initial_size for '' @ i)), g)"
    by (simp add: deme_def)
next
  fix a
  assume "anc = Some a \<and> deme_map g a = None"
  then show "\<exists>m. deme g i anc st et isz fsz eps = (Inl (ValueError m), g)"
    by (auto simp: deme_def contains_def Let_def split: option.splits)
next
  fix g'
  assume "deme g i anc st et isz fsz eps = (Inr (), g')"
  from deme_Inr_full [OF this] obtain isz' et' d where
    isz': "(case isz of None \<Rightarrow> default_Ne g | Some n \<Rightarrow> Some n) = Some isz'"
    and anc: "case anc of None \<Rightarrow> et' = et
         | Some a \<Rightarrow> (\<exists>ad. deme_map g a = Some ad \<and> epochs ad \<noteq> []
                        \<and> et' = start_time (hd (epochs ad)))"
    and r: "(case eps of
           None \<Rightarrow> Inr \<lparr>deme_id = i, ancestor = anc,
                     epochs = [\<lparr>start_time = st, end_time = Some et',
                       initial_size = Some isz',
                       final_size = Some (case fsz of None \<Rightarrow> isz' | Some f \<Rightarrow> f)\<rparr>]\<rparr>
         | Some es \<Rightarrow> add_epochs \<lparr>deme_id = i, ancestor = anc,
                     epochs = [\<lparr>start_time = st, end_time = Some et',
                       initial_size = Some isz',
                       final_size = Some (case fsz of None \<Rightarrow> isz' | Some f \<Rightarrow> f)\<rparr>]\<rparr> es)
         = Inr d"
    and g': "g' = g\<lparr>deme_map := (deme_map g)(i \<mapsto> d), demes := demes g @ [d]\<rparr>"
    by blast
  let ?d0 = "\<lparr>deme_id = i, ancestor = anc,
                     epochs = [\<lparr>start_time = st, end_time = Some et',
                       initial_size = Some isz',
                       final_size = Some (case fsz of None \<Rightarrow> isz' | Some f \<Rightarrow> f)\<rparr>]\<rparr>"
  let ?es = "case eps of None \<Rightarrow> [] | Some es \<Rightarrow> es"
  from r have "add_epochs ?d0 ?es = Inr d" by (cases eps) simp_all
  from add_epochs_keeps [OF this] have k: "epochs d \<noteq> []"
    "initial_size (hd (epochs d)) = Some isz'"
    "list_all (\<lambda>e. end_time e = None) ?es \<longrightarrow> end_time (last (epochs d)) = Some et'"
    by simp_all
  have e: "\<forall>a. anc = Some a \<longrightarrow>
                 (\<exists>ad. deme_map g a = Some ad \<and> epochs ad \<noteq> []
                    \<and> (list_all (\<lambda>e. end_time e = None) ?es \<longrightarrow>
                        deme_end_time d = Inr (Some (start_time (hd (epochs ad))))))"
    using anc k by (auto simp: deme_end_time_def)
  show "\<exists>d. getitem g' i = Inr d \<and> demes g' = demes g @ [d] \<and> epochs d \<noteq> []
            \<and> initial_size (hd (epochs d)) =
                (case isz of None \<Rightarrow> default_Ne g | Some n \<Rightarrow> Some n)
            \<and> (\<forall>a. anc = Some a \<longrightarrow>
                 (\<exists>ad. deme_map g a = Some ad \<and> epochs ad \<noteq> []
                    \<and> (list_all (\<lambda>e. end_time e = None)
                          (case eps of None \<Rightarrow> [] | Some es \<Rightarrow> es) \<longrightarrow>
                        deme_end_time d = Inr (Some (start_time (hd (epochs ad)))))))"
    using g' k(1,2) isz' e
    by (intro exI [of _ d]) (simp add: getitem_def)
qed

lemma deme_B_of_A:
  "deme graph_A10 ''B'' (Some ''A'') (Num 0) PlusInf None None None = (Inr (), graph_anc)"
  by (simp add: graph_anc_eq graph_A10_eq ex_A10_def ex_B_of_A_def ep_def)
     (simp add: graph0_def eval_defs)

theorem deme_spec_witness:
  "deme graph_no_Ne ''A'' None (Num 0) PlusInf None None None =
     (Inl (ValueError ''must set initial_size for A''), graph_no_Ne)
   \<and> (\<exists>m. deme graph0 ''B'' (Some ''Z'') (Num 0) PlusInf None None None =
         (Inl (ValueError m), graph0))
   \<and> (\<exists>d. getitem graph_anc ''B'' = Inr d
         \<and> initial_size (hd (epochs d)) = Some (Num 100)
         \<and> deme_end_time d = Inr (Some (Num 10)))"
proof -
  note unresolved = deme_spec [THEN conjunct1, rule_format]
  note unknown = deme_spec [THEN conjunct2, THEN conjunct1, rule_format]
  note created = deme_spec [THEN conjunct2, THEN conjunct2, rule_format]
  have 1: "deme graph_no_Ne ''A'' None (Num 0) PlusInf None None None =
     (Inl (ValueError ''must set initial_size for A''), graph_no_Ne)"
    using unresolved [of None graph_no_Ne "''A''" None "Num 0" PlusInf None None]
    by (simp add: graph_no_Ne_def graph0_def)
  have 2: "\<exists>m. deme graph0 ''B'' (Some ''Z'') (Num 0) PlusInf None None None =
         (Inl (ValueError m), graph0)"
    by (rule unknown) (simp add: graph0_def)
  from created [OF deme_B_of_A] obtain d where d: "getitem graph_anc ''B'' = Inr d"
    "initial_size (hd (epochs d)) = default_Ne graph_A10"
    "\<forall>a. Some ''A'' = Some a \<longrightarrow>
       (\<exists>ad. deme_map graph_A10 a = Some ad \<and> epochs ad \<noteq> []
          \<and> (list_all (\<lambda>e. end_time e = None) [] \<longrightarrow>
               deme_end_time d = Inr (Some (start_time (hd (epochs ad))))))"
    by auto
  from d(3) have "deme_end_time d = Inr (Some (Num 10))"
    by (simp add: graph_A10_eq ex_A10_def ep_def)
  moreover have "default_Ne graph_A10 = Some (Num 100)"
    by (simp add: graph_A10_eq graph0_def)
  ultimately show ?thesis using 1 2 d(1,2) by auto
qed

text \<open>
  C5. The end time of a deme with an ancestor is to be the ancestor's start time,
  whatever end time is supplied. On the graph in which \<open>A\<close> starts at time 10, the call
  \<^verbatim>\<open>deme("B", ancestor="A", epochs=[Epoch(start_time=1, end_time=2, initial_size=50)])\<close>
  succeeds, and the deme \<open>B\<close> it registers ends at time 2, not at time 10: the end time
  is forced on the first epoch only, and the additional epoch keeps its own.
\<close>

theorem deme_end_time_not_forced:
  "Epoch (Num 1) (Some (Num 2)) (Some (Num 50)) None = Inr ex_e12
   \<and> fst (deme graph_A10 ''B'' (Some ''A'') (Num 0) PlusInf None None (Some [ex_e12]))
       = Inr ()
   \<and> map_option deme_start_time (deme_map graph_A10 ''A'') = Some (Inr (Num 10))
   \<and> map_option deme_end_time
        (deme_map (snd (deme graph_A10 ''B'' (Some ''A'') (Num 0) PlusInf None None
           (Some [ex_e12]))) ''B'') = Some (Inr (Some (Num 2)))"
  by (simp add: graph_A10_eq ex_A10_def ep_def ex_e12_def deme_start_time_def)
     (simp add: graph0_def eval_defs add_epoch_def deme_end_time_def)

section \<open>Migrations\<close>

lemma migration_Inr:
  assumes "migration g src dst r mst met = (Inr u, g')"
  shows "\<exists>lo hi. check_time_intersection g src dst None False = Inr (lo, hi)
       \<and> g' = g\<lparr>migrations := migrations g @
              [\<lparr>migration.source = src, migration.dest = dst,
                migration.time = (case mst of None \<Rightarrow> lo | Some s \<Rightarrow> s), rate = r\<rparr>] @
              (case met of None \<Rightarrow> []
               | Some e \<Rightarrow> [\<lparr>migration.source = src, migration.dest = dst,
                             migration.time = e, rate = Num 0\<rparr>])\<rparr>
       \<and> (\<forall>s. mst = Some s \<longrightarrow> lo \<le> s \<and> s < hi)
       \<and> (\<forall>e. met = Some e \<longrightarrow> lo \<le> e \<and> e < hi)"
proof -
  from assms have ex: "contains g src" "contains g dst"
    by (auto simp: migration_def split: if_splits)
  from assms ex obtain lo hi where c: "check_time_intersection g src dst mst False = Inr (lo, hi)"
    by (cases "check_time_intersection g src dst mst False")
       (auto simp: migration_def)
  then have c0: "check_time_intersection g src dst None False = Inr (lo, hi)"
    and s: "\<forall>s. mst = Some s \<longrightarrow> lo \<le> s \<and> s < hi"
    by (cases mst; auto simp: cti_Some split: sum.splits if_splits)+
  let ?st = "case mst of None \<Rightarrow> lo | Some s \<Rightarrow> s"
  from assms ex c obtain m where m: "Migration src dst ?st r = Inr m"
    by (cases "Migration src dst ?st r") (auto simp: migration_def Let_def)
  note m' = Migration_Inr [OF m]
  let ?g1 = "g\<lparr>migrations := migrations g @ [m]\<rparr>"
  have cg1: "\<And>t. check_time_intersection ?g1 src dst t False =
      check_time_intersection g src dst t False"
    by (rule cti_cong) simp
  show ?thesis
  proof (cases met)
    case None
    with assms ex c m m' c0 s show ?thesis
      by (auto simp: migration_def Let_def)
  next
    case (Some e)
    from assms ex c m Some obtain lo' hi' where
      ce: "check_time_intersection g src dst (Some e) False = Inr (lo', hi')"
      by (cases "check_time_intersection g src dst (Some e) False")
         (auto simp: migration_def Let_def cg1)
    with c0 have e: "lo \<le> e \<and> e < hi"
      by (auto simp: cti_Some split: if_splits)
    from assms ex c m Some ce obtain m0 where m0: "Migration src dst e (Num 0) = Inr m0"
      by (cases "Migration src dst e (Num 0)") (auto simp: migration_def Let_def cg1)
    note m0' = Migration_Inr [OF m0]
    from assms ex c m Some ce m0 have "g' = ?g1\<lparr>migrations := migrations ?g1 @ [m0]\<rparr>"
      by (auto simp: migration_def Let_def cg1)
    with m' m0' c0 s e Some show ?thesis by simp
  qed
qed

lemma migration_loop_None:
  "migration_loop g ps r mst None = (Inr u, g') \<Longrightarrow>
     map (\<lambda>m. (migration.source m, migration.dest m, rate m)) (migrations g') =
       map (\<lambda>m. (migration.source m, migration.dest m, rate m)) (migrations g) @
       map (\<lambda>(s, d). (s, d, r)) ps"
proof (induction ps arbitrary: g)
  case Nil
  then show ?case by simp
next
  case (Cons p ps)
  obtain s d where p: "p = (s, d)" by (cases p)
  obtain res g1 where m: "migration g s d r mst None = (res, g1)"
    by (cases "migration g s d r mst None")
  with Cons.prems p obtain v where res: "res = Inr v"
    and rest: "migration_loop g1 ps r mst None = (Inr u, g')"
    by (cases res) auto
  from m res have "migration g s d r mst None = (Inr v, g1)" by simp
  from migration_Inr [OF this] obtain t where
    "g1 = g\<lparr>migrations := migrations g @
       [\<lparr>migration.source = s, migration.dest = d, migration.time = t, rate = r\<rparr>]\<rparr>"
    by auto
  with Cons.IH [OF rest] p show ?case by simp
qed

lemma length_filter_neq:
  "length (filter (\<lambda>j. j \<noteq> i) [0..<n]) = (if i < n then n - 1 else n)"
  by (induction n) auto

lemma length_permutations2: "length (permutations2 xs) = length xs * (length xs - 1)"
proof -
  have "(\<Sum>i\<leftarrow>[0..<length xs]. length (filter (\<lambda>j. j \<noteq> i) [0..<length xs]))
      = (\<Sum>i\<leftarrow>[0..<length xs]. length xs - 1)"
    by (rule arg_cong [where f = sum_list], rule map_cong) (simp_all add: length_filter_neq)
  then show ?thesis
    by (simp add: permutations2_def length_concat comp_def sum_list_triv)
qed

lemma set_permutations2:
  "set (permutations2 xs) =
     {(xs ! i, xs ! j) |i j. i < length xs \<and> j < length xs \<and> i \<noteq> j}"
  by (fastforce simp: permutations2_def)

lemma permutations2_three:
  "permutations2 [a, b, c] = [(a, b), (a, c), (b, a), (b, c), (c, a), (c, b)]"
  by (simp add: permutations2_def upt_rec)

text \<open>
  What \<^verbatim>\<open>migration\<close> and \<^verbatim>\<open>symmetric_migration\<close> do. \<^verbatim>\<open>migration\<close> raises a
  \<^verbatim>\<open>ValueError\<close> unless both demes are in the graph. A start time that is supplied is checked against the half-open coexistence interval
  and rejected outside it; a start time that is omitted is the lower bound of the
  interval. A successful call appends one record with the resolved start time and the
  given rate and, exactly when an end time is given, a second record with rate 0 at
  the end time, which then lies in the interval. \<^verbatim>\<open>symmetric_migration\<close> raises for
  fewer than two ids and otherwise runs \<^verbatim>\<open>migration\<close> over all pairs of ids at two
  different positions; without an end time a successful call appends one record per
  pair with the pair as source and destination and the given rate, so six records for
  three ids.
\<close>

theorem migration_spec:
  "(\<not> contains g src \<or> \<not> contains g dst \<longrightarrow>
      (\<exists>m. migration g src dst r mst met = (Inl (ValueError m), g)))
   \<and> (\<forall>s lo hi. mst = Some s \<and> contains g src \<and> contains g dst
         \<and> check_time_intersection g src dst None False = Inr (lo, hi)
         \<and> \<not> (lo \<le> s \<and> s < hi) \<longrightarrow>
       migration g src dst r mst met = (Inl (IntervalError s lo hi False), g))
   \<and> (\<forall>g'. migration g src dst r mst met = (Inr (), g') \<longrightarrow>
         (\<exists>lo hi. check_time_intersection g src dst None False = Inr (lo, hi)
            \<and> g' = g\<lparr>migrations := migrations g @
                   [\<lparr>migration.source = src, migration.dest = dst,
                     migration.time = (case mst of None \<Rightarrow> lo | Some s \<Rightarrow> s),
                     rate = r\<rparr>] @
                   (case met of None \<Rightarrow> []
                    | Some e \<Rightarrow> [\<lparr>migration.source = src, migration.dest = dst,
                                  migration.time = e, rate = Num 0\<rparr>])\<rparr>
            \<and> (\<forall>s. mst = Some s \<longrightarrow> lo \<le> s \<and> s < hi)
            \<and> (\<forall>e. met = Some e \<longrightarrow> lo \<le> e \<and> e < hi)))
   \<and> (length ids < 2 \<longrightarrow>
         symmetric_migration g ids r mst met =
           (Inl (ValueError ''must specify two or more demes''), g))
   \<and> (2 \<le> length ids \<longrightarrow>
         symmetric_migration g ids r mst met =
           migration_loop g (permutations2 ids) r mst met)
   \<and> set (permutations2 ids) =
        {(ids ! i, ids ! j) |i j. i < length ids \<and> j < length ids \<and> i \<noteq> j}
   \<and> (\<forall>g'. symmetric_migration g ids r mst None = (Inr (), g') \<longrightarrow>
         map (\<lambda>m. (migration.source m, migration.dest m, rate m)) (migrations g') =
           map (\<lambda>m. (migration.source m, migration.dest m, rate m)) (migrations g) @
           map (\<lambda>(s, d). (s, d, r)) (permutations2 ids)
         \<and> length (migrations g') = length (migrations g) + length ids * (length ids - 1))
   \<and> (\<forall>g'. length ids = 3 \<and> symmetric_migration g ids r mst None = (Inr (), g') \<longrightarrow>
         length (migrations g') = length (migrations g) + 6)"
proof -
  have sym: "map (\<lambda>m. (migration.source m, migration.dest m, rate m)) (migrations g') =
           map (\<lambda>m. (migration.source m, migration.dest m, rate m)) (migrations g) @
           map (\<lambda>(s, d). (s, d, r)) (permutations2 ids)
         \<and> length (migrations g') = length (migrations g) + length ids * (length ids - 1)"
    if h: "symmetric_migration g ids r mst None = (Inr (), g')" for g'
  proof -
    from h have "migration_loop g (permutations2 ids) r mst None = (Inr (), g')"
      by (auto simp: symmetric_migration_def split: if_splits)
    from migration_loop_None [OF this]
    have m: "map (\<lambda>m. (migration.source m, migration.dest m, rate m)) (migrations g') =
           map (\<lambda>m. (migration.source m, migration.dest m, rate m)) (migrations g) @
           map (\<lambda>(s, d). (s, d, r)) (permutations2 ids)" .
    from arg_cong [OF m, of length]
    have "length (migrations g') = length (migrations g) + length (permutations2 ids)"
      by simp
    with m show ?thesis by (simp add: length_permutations2)
  qed
  show ?thesis
  proof (intro conjI allI impI)
    assume "\<not> contains g src \<or> \<not> contains g dst"
    then show "\<exists>m. migration g src dst r mst met = (Inl (ValueError m), g)"
      by (auto simp: migration_def)
  next
    fix s lo hi
    assume "mst = Some s \<and> contains g src \<and> contains g dst
         \<and> check_time_intersection g src dst None False = Inr (lo, hi)
         \<and> \<not> (lo \<le> s \<and> s < hi)"
    then show "migration g src dst r mst met = (Inl (IntervalError s lo hi False), g)"
      by (auto simp: migration_def cti_Some)
  next
    fix g'
    assume "migration g src dst r mst met = (Inr (), g')"
    then show "\<exists>lo hi. check_time_intersection g src dst None False = Inr (lo, hi)
            \<and> g' = g\<lparr>migrations := migrations g @
                   [\<lparr>migration.source = src, migration.dest = dst,
                     migration.time = (case mst of None \<Rightarrow> lo | Some s \<Rightarrow> s),
                     rate = r\<rparr>] @
                   (case met of None \<Rightarrow> []
                    | Some e \<Rightarrow> [\<lparr>migration.source = src, migration.dest = dst,
                                  migration.time = e, rate = Num 0\<rparr>])\<rparr>
            \<and> (\<forall>s. mst = Some s \<longrightarrow> lo \<le> s \<and> s < hi)
            \<and> (\<forall>e. met = Some e \<longrightarrow> lo \<le> e \<and> e < hi)"
      by (rule migration_Inr)
  next
    assume "length ids < 2"
    then show "symmetric_migration g ids r mst met =
           (Inl (ValueError ''must specify two or more demes''), g)"
      by (simp add: symmetric_migration_def)
  next
    assume "2 \<le> length ids"
    then show "symmetric_migration g ids r mst met =
           migration_loop g (permutations2 ids) r mst met"
      by (simp add: symmetric_migration_def)
  next
    show "set (permutations2 ids) =
        {(ids ! i, ids ! j) |i j. i < length ids \<and> j < length ids \<and> i \<noteq> j}"
      by (rule set_permutations2)
  next
    fix g'
    assume "symmetric_migration g ids r mst None = (Inr (), g')"
    from sym [OF this]
    show "map (\<lambda>m. (migration.source m, migration.dest m, rate m)) (migrations g') =
           map (\<lambda>m. (migration.source m, migration.dest m, rate m)) (migrations g) @
           map (\<lambda>(s, d). (s, d, r)) (permutations2 ids)"
      by simp
  next
    fix g'
    assume "symmetric_migration g ids r mst None = (Inr (), g')"
    from sym [OF this]
    show "length (migrations g') = length (migrations g) + length ids * (length ids - 1)"
      by simp
  next
    fix g'
    assume "length ids = 3 \<and> symmetric_migration g ids r mst None = (Inr (), g')"
    with sym [of g']
    show "length (migrations g') = length (migrations g) + 6"
      by simp
  qed
qed

lemma cti_migrations_update [simp]:
  "check_time_intersection (g\<lparr>migrations := ms\<rparr>) a b t cl =
     check_time_intersection g a b t cl"
  by (rule cti_cong) simp

lemma graph_apart_eq:
  "graph_apart = graph0\<lparr>demes := [ex_A_early, ex_B_late],
     deme_map := [''A'' \<mapsto> ex_A_early, ''B'' \<mapsto> ex_B_late]\<rparr>"
  by (simp add: graph_apart_def graph0_def eval_defs ep_def ex_A_early_def ex_B_late_def)

lemma cti_apart:
  "check_time_intersection graph_apart ''A'' ''B'' None False = Inr (Num 20, Num 10)"
  by (simp add: graph_apart_eq check_time_intersection_def getitem_def andthen_def
      deme_start_time_def deme_end_time_def py_min_def ex_A_early_def ex_B_late_def ep_def)

lemma graph_ABC_eq:
  "graph_ABC = graph0\<lparr>demes := [ex_A, ex_B, ex_C],
     deme_map := [''A'' \<mapsto> ex_A, ''B'' \<mapsto> ex_B, ''C'' \<mapsto> ex_C]\<rparr>"
  by (simp add: graph_ABC_def graph_AB_eq ex_A_def ex_B_def ex_C_def ep_def)
     (simp add: graph0_def eval_defs)

lemma migration_ABC:
  assumes "deme_map g = deme_map graph_ABC"
    and "s \<in> {''A'', ''B'', ''C''}" and "d \<in> {''A'', ''B'', ''C''}" and "s \<noteq> d"
    and "0 \<le> r"
  shows "migration g s d (Num r) None None =
     (Inr (), g\<lparr>migrations := migrations g @
        [\<lparr>migration.source = s, migration.dest = d, migration.time = Num 0,
          rate = Num r\<rparr>]\<rparr>)"
proof -
  have c: "check_time_intersection g s d None False = Inr (Num 0, Num 100)"
    using assms(1-3)
    by (auto simp: graph_ABC_eq check_time_intersection_def getitem_def andthen_def
      deme_start_time_def deme_end_time_def py_min_def ex_A_def ex_B_def ex_C_def ep_def)
  have m: "Migration s d (Num 0) (Num r) =
     Inr \<lparr>migration.source = s, migration.dest = d, migration.time = Num 0, rate = Num r\<rparr>"
    using assms(4,5) by (simp add: ctor_defs not_less)
  have e: "contains g s" "contains g d"
    using assms(1-3) by (auto simp: contains_def graph_ABC_eq)
  show ?thesis by (simp add: migration_def e c m)
qed

lemma symmetric_ABC:
  "fst (symmetric_migration graph_ABC [''A'', ''B'', ''C''] (Num (1 / 100000)) None None)
     = Inr ()"
  by (simp add: symmetric_migration_def permutations2_three migration_ABC)


lemma migration_AB_10_50:
  "fst (migration graph_AB ''A'' ''B'' (Num 1) (Some (Num 10)) (Some (Num 50))) = Inr ()"
proof -
  have m: "Migration ''A'' ''B'' (Num 10) (Num 1) =
     Inr \<lparr>migration.source = ''A'', migration.dest = ''B'', migration.time = Num 10,
          rate = Num 1\<rparr>"
    "Migration ''A'' ''B'' (Num 50) (Num 0) =
     Inr \<lparr>migration.source = ''A'', migration.dest = ''B'', migration.time = Num 50,
          rate = Num 0\<rparr>"
    by (simp_all add: ctor_defs)
  show ?thesis
    by (simp add: migration_def contains_def graph_AB_map cti_Some cti_AB m)
qed

theorem migration_spec_witness:
  "length (migrations (snd (symmetric_migration graph_ABC [''A'', ''B'', ''C'']
       (Num (1 / 100000)) None None))) = 6
   \<and> migrations (snd (migration graph_AB ''A'' ''B'' (Num 1) (Some (Num 10))
       (Some (Num 50)))) =
       [\<lparr>migration.source = ''A'', migration.dest = ''B'', migration.time = Num 10,
         rate = Num 1\<rparr>,
        \<lparr>migration.source = ''A'', migration.dest = ''B'', migration.time = Num 50,
         rate = Num 0\<rparr>]
   \<and> migration graph_AB ''A'' ''B'' (Num 1) (Some (Num 200)) None =
       (Inl (IntervalError (Num 200) (Num 0) (Num 100) False), graph_AB)
   \<and> (\<exists>m. migration graph_AB ''A'' ''Z'' (Num 1) None None = (Inl (ValueError m), graph_AB))
   \<and> symmetric_migration graph_AB [''A''] (Num 1) None None =
       (Inl (ValueError ''must specify two or more demes''), graph_AB)"
proof -
  note missing = migration_spec [THEN conjunct1, rule_format]
  note early = migration_spec [THEN conjunct2, THEN conjunct1, rule_format]
  note appended = migration_spec [THEN conjunct2, THEN conjunct2, THEN conjunct1, rule_format]
  note few = migration_spec [THEN conjunct2, THEN conjunct2, THEN conjunct2,
      THEN conjunct1, rule_format]
  note three = migration_spec [THEN conjunct2, THEN conjunct2, THEN conjunct2,
      THEN conjunct2, THEN conjunct2, THEN conjunct2, THEN conjunct2, rule_format]
  let ?sym = "symmetric_migration graph_ABC [''A'', ''B'', ''C''] (Num (1 / 100000)) None None"
  have "?sym = (Inr (), snd ?sym)"
    using symmetric_ABC by (metis prod.collapse)
  then have "length (migrations (snd ?sym)) = length (migrations graph_ABC) + 6"
    using three [of "[''A'', ''B'', ''C'']" graph_ABC "Num (1 / 100000)" None "snd ?sym"]
    by simp
  then have 1: "length (migrations (snd ?sym)) = 6"
    by (simp add: graph_ABC_eq graph0_def)
  let ?mig = "migration graph_AB ''A'' ''B'' (Num 1) (Some (Num 10)) (Some (Num 50))"
  have "?mig = (Inr (), snd ?mig)"
    using migration_AB_10_50 by (metis prod.collapse)
  from appended [OF this] have 2: "migrations (snd ?mig) =
       [\<lparr>migration.source = ''A'', migration.dest = ''B'', migration.time = Num 10,
         rate = Num 1\<rparr>,
        \<lparr>migration.source = ''A'', migration.dest = ''B'', migration.time = Num 50,
         rate = Num 0\<rparr>]"
    by (auto simp: graph_AB_eq graph0_def)
  have 3: "migration graph_AB ''A'' ''B'' (Num 1) (Some (Num 200)) None =
       (Inl (IntervalError (Num 200) (Num 0) (Num 100) False), graph_AB)"
    by (rule early) (simp add: contains_def graph_AB_map cti_AB)
  have 4: "\<exists>m. migration graph_AB ''A'' ''Z'' (Num 1) None None = (Inl (ValueError m), graph_AB)"
    by (rule missing) (simp add: contains_def graph_AB_map)
  have 5: "symmetric_migration graph_AB [''A''] (Num 1) None None =
       (Inl (ValueError ''must specify two or more demes''), graph_AB)"
    by (rule few) simp
  from 1 2 3 4 5 show ?thesis by blast
qed

text \<open>
  C6. The start time of a migration is to be validated by the intersection check,
  also when it is the default. \<open>A\<close> exists from 0 to 10 and \<open>B\<close> from 20 to 30. The
  call \<^verbatim>\<open>migration("A", "B", rate=1)\<close> succeeds and records the migration at time 20,
  the lower bound, although the intersection check rejects time 20 for this pair (the
  lower bound 20 is above the upper bound 10): the check is run on the start time as
  given, before the default replaces it.
\<close>

theorem start_default_not_validated:
  "migration graph_apart ''A'' ''B'' (Num 1) None None =
     (Inr (), graph_apart\<lparr>migrations := migrations graph_apart @
        [\<lparr>migration.source = ''A'', migration.dest = ''B'', migration.time = Num 20,
          rate = Num 1\<rparr>]\<rparr>)
   \<and> check_time_intersection graph_apart ''A'' ''B'' None False = Inr (Num 20, Num 10)
   \<and> check_time_intersection graph_apart ''A'' ''B'' (Some (Num 20)) False =
       Inl (IntervalError (Num 20) (Num 20) (Num 10) False)"
proof -
  have m: "Migration ''A'' ''B'' (Num 20) (Num 1) =
     Inr \<lparr>migration.source = ''A'', migration.dest = ''B'', migration.time = Num 20,
          rate = Num 1\<rparr>"
    by (simp add: ctor_defs)
  have c: "contains graph_apart ''A''" "contains graph_apart ''B''"
    by (simp_all add: contains_def graph_apart_eq)
  show ?thesis
    by (simp add: migration_def c cti_apart m cti_Some)
qed

section \<open>Subgraphs\<close>

lemma pulse_loop_Inr:
  "pulse_loop g i ancs props et js p = (Inr q, g') \<Longrightarrow>
     g' = g\<lparr>pulses := pulses g @
            map (\<lambda>j. \<lparr>source = i, dest = ancs ! j, time = et,
                       proportion = Num (props ! j / sum_list (drop j props))\<rparr>) js\<rparr>
     \<and> q = (if js = [] then p
            else Some (props ! last js / sum_list (drop (last js) props)))
     \<and> (\<forall>j \<in> set js. j < length props \<and> sum_list (drop j props) \<noteq> 0)"
proof (induction js arbitrary: g p)
  case Nil
  then show ?case by simp
next
  case (Cons j js)
  let ?p = "props ! j / sum_list (drop j props)"
  from Cons.prems have j: "j < length props" "sum_list (drop j props) \<noteq> 0"
    by (auto split: if_splits)
  obtain r g1 where pl: "pulse g i (ancs ! j) (Num ?p) et = (r, g1)"
    by (cases "pulse g i (ancs ! j) (Num ?p) et")
  with Cons.prems j obtain u where r: "r = Inr u"
    and rest: "pulse_loop g1 i ancs props et js (Some ?p) = (Inr q, g')"
    by (cases r) (auto simp: Let_def)
  from pl r have "pulse g i (ancs ! j) (Num ?p) et = (Inr u, g1)" by simp
  note g1 = pulse_Inr [OF this]
  from Cons.IH [OF rest] g1 j show ?case by auto
qed

lemma add_epoch_error:
  "add_epoch d e = (Inl x, d') \<Longrightarrow> epochs d \<noteq> [] \<Longrightarrow> is_ValueError x"
  by (auto simp: add_epoch_def Let_def split: if_splits)

lemma add_epochs_error:
  "add_epochs d es = Inl x \<Longrightarrow> epochs d \<noteq> [] \<Longrightarrow> is_ValueError x"
proof (induction es arbitrary: d)
  case Nil
  then show ?case by simp
next
  case (Cons e es)
  obtain r d1 where a: "add_epoch d e = (r, d1)" by (cases "add_epoch d e")
  show ?case
  proof (cases r)
    case (Inl y)
    with a Cons.prems add_epoch_error [of d e y d1] show ?thesis by simp
  next
    case (Inr u)
    with a Cons.prems have rest: "add_epochs d1 es = Inl x" by simp
    from a Inr add_epoch_keeps [of d e u d1] have "epochs d1 \<noteq> []" by simp
    from Cons.IH [OF rest this] show ?thesis .
  qed
qed

lemma Epoch_error: "Epoch st et isz fsz = Inl x \<Longrightarrow> is_ValueError x"
  by (auto simp: Epoch_def andthen_def optional_def positive_def non_negative_def
      finite_v_def split: sum.splits option.splits if_splits)

lemma Pulse_error: "Pulse s d t p = Inl x \<Longrightarrow> is_ValueError x"
  by (auto simp: Pulse_def andthen_def unit_interval_def non_negative_def finite_v_def
      split: sum.splits option.splits if_splits)

lemma Deme_error: "Deme i anc es = Inl x \<Longrightarrow> is_ValueError x"
  by (auto simp: Deme_def split: if_splits)

lemma is_ValueError_not_assert: "is_ValueError x \<Longrightarrow> x \<noteq> AssertionError"
  by (cases x) simp_all

lemma deme_error:
  assumes "deme g i anc st et isz fsz eps = (Inl x, g')"
  shows "x \<noteq> AssertionError"
proof (cases "case isz of None \<Rightarrow> default_Ne g | Some n \<Rightarrow> Some n")
  case None
  with assms show ?thesis by (auto simp: deme_def)
next
  case (Some isz')
  let ?fsz = "case fsz of None \<Rightarrow> isz' | Some f \<Rightarrow> f"
  let ?anc = "case anc of None \<Rightarrow> Inr et
                 | Some a \<Rightarrow>
                     if \<not> contains g a then Inl (ValueError (a @ '' not in deme graph''))
                     else andthen (getitem g a) (\<lambda>ad.
                       case epochs ad of [] \<Rightarrow> Inl IndexError
                       | e0 # _ \<Rightarrow> Inr (start_time e0))"
  show ?thesis
  proof (cases ?anc)
    case (Inl y)
    then have "y \<noteq> AssertionError"
      by (auto simp: andthen_def getitem_def split: option.splits if_splits list.splits)
    with assms Some Inl show ?thesis by (auto simp: deme_def Let_def)
  next
    case (Inr et')
    let ?build = "andthen (Epoch st (Some et') (Some isz') (Some ?fsz)) (\<lambda>ep.
                     andthen (Deme i anc [ep]) (\<lambda>d.
                       case eps of None \<Rightarrow> Inr d | Some es \<Rightarrow> add_epochs d es))"
    from assms Some Inr have b: "?build = Inl x"
      by (cases ?build) (auto simp: deme_def Let_def)
    have "is_ValueError x"
    proof (cases "Epoch st (Some et') (Some isz') (Some ?fsz)")
      case (Inl y)
      with b Epoch_error [OF Inl] show ?thesis by (simp add: andthen_def)
    next
      case e: (Inr e0)
      show ?thesis
      proof (cases "Deme i anc [e0]")
        case (Inl y)
        with b e Deme_error [OF Inl] show ?thesis by (simp add: andthen_def)
      next
        case d: (Inr d0)
        from Deme_Inr [OF d] have ne: "epochs d0 \<noteq> []" by simp
        from b e d obtain es where "eps = Some es" "add_epochs d0 es = Inl x"
          by (cases eps) (auto simp: andthen_def)
        with add_epochs_error ne show ?thesis by blast
      qed
    qed
    then show ?thesis by (rule is_ValueError_not_assert)
  qed
qed

lemma cti_error:
  "check_time_intersection g a b t cl = Inl x \<Longrightarrow> x \<noteq> AssertionError"
  by (auto simp: check_time_intersection_def andthen_def getitem_def deme_start_time_def
      deme_end_time_def py_min_def Let_def
      split: sum.splits option.splits list.splits if_splits)

lemma pulse_error:
  assumes "pulse g src dst p t = (Inl x, g')"
  shows "x \<noteq> AssertionError"
  using assms
  by (auto simp: pulse_def andthen_def getitem_def contains_def
      split: if_splits sum.splits option.splits
      dest: cti_error Pulse_error [THEN is_ValueError_not_assert])

lemma pulse_loop_error:
  "pulse_loop g i ancs props et js p = (Inl x, g') \<Longrightarrow> x \<noteq> AssertionError"
proof (induction js arbitrary: g p)
  case Nil
  then show ?case by simp
next
  case (Cons j js)
  let ?p = "props ! j / sum_list (drop j props)"
  obtain r g1 where pl: "pulse g i (ancs ! j) (Num ?p) et = (r, g1)"
    by (cases "pulse g i (ancs ! j) (Num ?p) et")
  show ?case
  proof (cases r)
    case (Inl y)
    with pl pulse_error [of g i "ancs ! j" "Num ?p" et y g1] Cons.prems show ?thesis
      by (auto simp: Let_def split: if_splits)
  next
    case (Inr u)
    with pl Cons.prems Cons.IH [of g1 "Some ?p"] show ?thesis
      by (auto simp: Let_def split: if_splits)
  qed
qed

lemma start_times_error: "start_times g ancs = Inl x \<Longrightarrow> x \<noteq> AssertionError"
  by (induction ancs arbitrary: x)
     (auto simp: andthen_def getitem_def deme_start_time_def
       split: sum.splits option.splits list.splits)

lemma max_start_time_error: "max_start_time g ancs = Inl x \<Longrightarrow> x \<noteq> AssertionError"
  by (auto simp: max_start_time_def andthen_def split: sum.splits list.splits
      dest: start_times_error)

lemma drop_to_last: "xs \<noteq> [] \<Longrightarrow> drop (length xs - 1) xs = [last xs]"
  by (cases xs rule: rev_cases) simp_all

lemma not_isclose_0_1: "\<not> isclose 0 1"
  by (simp add: isclose_def)

lemma final_p:
  assumes "pulse_loop g i ancs props et [0..<length props] None = (Inr q, g')"
    and "props \<noteq> []"
  shows "q = Some 1 \<and> (\<forall>j < length props. sum_list (drop j props) \<noteq> 0)
       \<and> last props / sum_list (drop (length props - 1) props) = 1"
proof -
  let ?n = "length props"
  from assms(2) have n: "0 < ?n" by simp
  then have js: "[0..<?n] \<noteq> []" "last [0..<?n] = ?n - 1"
    by (simp_all add: last_upt)
  from pulse_loop_Inr [OF assms(1)] js
  have q: "q = Some (props ! (?n - 1) / sum_list (drop (?n - 1) props))"
    and nz: "\<forall>j < ?n. sum_list (drop j props) \<noteq> 0"
    by auto
  from assms(2) have l: "props ! (?n - 1) = last props"
    by (simp add: last_conv_nth)
  from nz n have "sum_list (drop (?n - 1) props) \<noteq> 0" by simp
  with drop_to_last [OF assms(2)] have "last props \<noteq> 0" by simp
  with q l nz drop_to_last [OF assms(2)] show ?thesis by simp
qed

text \<open>
  What \<^verbatim>\<open>subgraph\<close> does when it returns, on exact numbers. A \<^verbatim>\<open>subgraph\<close> call never
  fails its trailing assertion. A call that returns has
  passed the length check and the sum check, has created the deme, and has appended,
  for every ancestor in order, one pulse from the new deme to the ancestor whose
  proportion is the ancestor's proportion divided by the sum of the proportions from
  that position on; every such sum is nonzero, and the proportion computed for the
  last ancestor is exactly 1.
\<close>

theorem subgraph_proportions:
  "fst (subgraph g i ancs props st et isz fsz eps) \<noteq> Inl AssertionError
   \<and> (\<forall>g'. subgraph g i ancs props st et isz fsz eps = (Inr (), g') \<longrightarrow>
         length ancs = length props \<and> isclose (sum_list props) 1 \<and> props \<noteq> []
         \<and> (\<exists>et' g1. (case et of None \<Rightarrow> max_start_time g ancs | Some e \<Rightarrow> Inr e) = Inr et'
               \<and> deme g i None st et' isz fsz eps = (Inr (), g1)
               \<and> g' = g1\<lparr>pulses := pulses g1 @
                    map (\<lambda>j. \<lparr>source = i, dest = ancs ! j, time = et',
                       proportion = Num (props ! j / sum_list (drop j props))\<rparr>)
                      [0..<length ancs]\<rparr>)
         \<and> (\<forall>j < length props. sum_list (drop j props) \<noteq> 0)
         \<and> last props / sum_list (drop (length props - 1) props) = 1)"
proof (cases "length ancs \<noteq> length props \<or> \<not> isclose (sum_list props) 1")
  case True
  then show ?thesis by (auto simp: subgraph_def)
next
  case False
  then have len: "length ancs = length props" and close: "isclose (sum_list props) 1"
    by simp_all
  from close not_isclose_0_1 have ne: "props \<noteq> []" by auto
  let ?et = "case et of None \<Rightarrow> max_start_time g ancs | Some e \<Rightarrow> Inr e"
  show ?thesis
  proof (cases ?et)
    case (Inl x)
    then have "x \<noteq> AssertionError"
      by (cases et) (auto dest: max_start_time_error)
    with Inl len close show ?thesis by (simp add: subgraph_def)
  next
    case (Inr et')
    obtain r g1 where d: "deme g i None st et' isz fsz eps = (r, g1)"
      by (cases "deme g i None st et' isz fsz eps")
    show ?thesis
    proof (cases r)
      case (Inl x)
      with d deme_error [of g i None st et' isz fsz eps x g1] Inr len close show ?thesis
        by (simp add: subgraph_def)
    next
      case u: (Inr u)
      obtain q g2 where l: "pulse_loop g1 i ancs props et' [0..<length props] None = (q, g2)"
        by (cases "pulse_loop g1 i ancs props et' [0..<length props] None")
      show ?thesis
      proof (cases q)
        case (Inl x)
        with l pulse_loop_error [of g1 i ancs props et' _ None x g2] d u Inr len close
        show ?thesis by (simp add: subgraph_def)
      next
        case p: (Inr p)
        with l have l': "pulse_loop g1 i ancs props et' [0..<length props] None = (Inr p, g2)"
          by simp
        from final_p [OF l' ne] have fp: "p = Some 1"
          "\<forall>j < length props. sum_list (drop j props) \<noteq> 0"
          "last props / sum_list (drop (length props - 1) props) = 1"
          by simp_all
        from pulse_loop_Inr [OF l'] have g2: "g2 = g1\<lparr>pulses := pulses g1 @
            map (\<lambda>j. \<lparr>source = i, dest = ancs ! j, time = et',
                       proportion = Num (props ! j / sum_list (drop j props))\<rparr>)
              [0..<length props]\<rparr>"
          by simp
        have res: "subgraph g i ancs props st et isz fsz eps = (Inr (), g2)"
          using len close Inr d u l' fp(1) by (simp add: subgraph_def)
        show ?thesis
          unfolding res using len close ne Inr d u g2 fp(2,3) by auto
      qed
    qed
  qed
qed

lemma graph_55_eq:
  "graph_55 = graph0\<lparr>demes := [ex_A5inf, ex_B5inf],
     deme_map := [''A'' \<mapsto> ex_A5inf, ''B'' \<mapsto> ex_B5inf]\<rparr>"
  by (simp add: graph_55_def graph0_def eval_defs ep_def ex_A5inf_def ex_B5inf_def)

lemmas subgraph_eval = subgraph_def isclose_def max_start_time_def graph_55_eq graph0_def
  eval_defs pulse_def check_time_intersection_def deme_start_time_def deme_end_time_def
  py_min_def ex_A5inf_def ex_B5inf_def ep_def upt_rec

lemma subgraph_quarters:
  "fst (subgraph graph_55 ''C'' [''A'', ''B''] [1 / 4, 3 / 4] (Num 0) None None None None) =
     Inr ()"
  by (simp add: subgraph_eval)


lemma deme_Inr_pulses:
  "deme g i anc st et isz fsz eps = (Inr u, g') \<Longrightarrow> pulses g' = pulses g"
  by (drule deme_Inr) auto

theorem subgraph_proportions_witness:
  "fst (subgraph graph_55 ''C'' [''A'', ''B''] [1 / 4, 3 / 4] (Num 0) None None None None) =
     Inr ()
   \<and> pulses (snd (subgraph graph_55 ''C'' [''A'', ''B''] [1 / 4, 3 / 4] (Num 0) None None
        None None)) =
       [\<lparr>source = ''C'', dest = ''A'', time = Num 5, proportion = Num (1 / 4)\<rparr>,
        \<lparr>source = ''C'', dest = ''B'', time = Num 5, proportion = Num 1\<rparr>]"
proof -
  let ?call = "subgraph graph_55 ''C'' [''A'', ''B''] [1 / 4, 3 / 4] (Num 0) None None
        None None"
  have "?call = (Inr (), snd ?call)"
    using subgraph_quarters by (metis prod.collapse)
  from subgraph_proportions [THEN conjunct2, rule_format, OF this]
  obtain et' g1 where
    et': "max_start_time graph_55 [''A'', ''B''] = Inr et'"
    and d: "deme graph_55 ''C'' None (Num 0) et' None None None = (Inr (), g1)"
    and g': "snd ?call = g1\<lparr>pulses := pulses g1 @
        map (\<lambda>j. \<lparr>source = ''C'', dest = [''A'', ''B''] ! j, time = et',
               proportion = Num ([1 / 4, 3 / 4] ! j / sum_list (drop j [1 / 4, 3 / 4]))\<rparr>)
          [0..<length [''A'', ''B'']]\<rparr>"
    by auto
  from et' have e5: "et' = Num 5"
    by (simp add: max_start_time_def graph_55_eq getitem_def andthen_def
        deme_start_time_def ex_A5inf_def ex_B5inf_def ep_def)
  have "pulses g1 = []"
    using deme_Inr_pulses [OF d] by (simp add: graph_55_eq graph0_def)
  with g' e5 have "pulses (snd ?call) =
       [\<lparr>source = ''C'', dest = ''A'', time = Num 5, proportion = Num (1 / 4)\<rparr>,
        \<lparr>source = ''C'', dest = ''B'', time = Num 5, proportion = Num 1\<rparr>]"
    by (simp add: upt_rec)
  with subgraph_quarters show ?thesis by simp
qed

text \<open>
  C8. A \<^verbatim>\<open>subgraph\<close> call whose proportions sum to 1 is to compute the proportion 1
  for the last ancestor, in any order of the ancestors. For the ancestors \<open>A\<close>, \<open>B\<close>
  the proportions 0, 1 do so: the call returns with the pulse proportions 0 and 1.
  The same proportions in the other order, 1, 0, sum to 1 as well, and the call raises
  \<^verbatim>\<open>ZeroDivisionError\<close> at the last ancestor, after the deme is registered and the
  pulse for the first ancestor is appended.
\<close>

theorem zero_last_proportion:
  "isclose (sum_list [0, 1]) 1
   \<and> fst (subgraph graph_55 ''C'' [''A'', ''B''] [0, 1] (Num 0) None None None None) =
       Inr ()
   \<and> map proportion (pulses (snd (subgraph graph_55 ''C'' [''A'', ''B''] [0, 1] (Num 0)
        None None None None))) = [Num 0, Num 1]
   \<and> isclose (sum_list [1, 0]) 1
   \<and> fst (subgraph graph_55 ''C'' [''A'', ''B''] [1, 0] (Num 0) None None None None) =
       Inl ZeroDivisionError
   \<and> map proportion (pulses (snd (subgraph graph_55 ''C'' [''A'', ''B''] [1, 0] (Num 0)
        None None None None))) = [Num 1]
   \<and> map deme_id (demes (snd (subgraph graph_55 ''C'' [''A'', ''B''] [1, 0] (Num 0)
        None None None None))) = [''A'', ''B'', ''C'']"
  by (simp add: subgraph_eval)

section \<open>Epochs of registered demes\<close>

lemma add_epoch_end_set:
  assumes "add_epoch d e = (Inr u, d')"
    and "\<forall>x \<in> set (epochs d). end_time x \<noteq> None"
  shows "\<forall>x \<in> set (epochs d'). end_time x \<noteq> None"
proof -
  from assms(1) have ne: "epochs d \<noteq> []"
    by (auto simp: add_epoch_def split: if_splits)
  with assms(2) have "end_time (epochs d ! (length (epochs d) - 1)) \<noteq> None"
    by simp
  with assms ne show ?thesis
    by (auto simp: add_epoch_def Let_def split: if_splits dest!: set_update_subset_insert [THEN subsetD])
qed

lemma add_epochs_end_set:
  "add_epochs d es = Inr d' \<Longrightarrow> \<forall>x \<in> set (epochs d). end_time x \<noteq> None \<Longrightarrow>
     \<forall>x \<in> set (epochs d'). end_time x \<noteq> None"
proof (induction es arbitrary: d)
  case Nil
  then show ?case by simp
next
  case (Cons e es)
  obtain r d1 where a: "add_epoch d e = (r, d1)" by (cases "add_epoch d e")
  with Cons.prems obtain u where r: "r = Inr u" and rest: "add_epochs d1 es = Inr d'"
    by (cases r) auto
  from a r have "add_epoch d e = (Inr u, d1)" by simp
  from Cons.IH [OF rest add_epoch_end_set [OF this Cons.prems(2)]] show ?case .
qed

text \<open>
  Every deme that \<^verbatim>\<open>deme\<close> registers has at least one epoch, and each of its epochs
  has an end time.
\<close>

lemma deme_registers_timed_epochs:
  assumes "deme g i anc st et isz fsz eps = (Inr u, g')"
  shows "\<exists>d. deme_map g' i = Some d \<and> epochs d \<noteq> []
       \<and> (\<forall>x \<in> set (epochs d). end_time x \<noteq> None)"
proof -
  from deme_Inr_full [OF assms] obtain isz' et' d where
    r: "(case eps of
           None \<Rightarrow> Inr \<lparr>deme_id = i, ancestor = anc,
                     epochs = [\<lparr>start_time = st, end_time = Some et',
                       initial_size = Some isz',
                       final_size = Some (case fsz of None \<Rightarrow> isz' | Some f \<Rightarrow> f)\<rparr>]\<rparr>
         | Some es \<Rightarrow> add_epochs \<lparr>deme_id = i, ancestor = anc,
                     epochs = [\<lparr>start_time = st, end_time = Some et',
                       initial_size = Some isz',
                       final_size = Some (case fsz of None \<Rightarrow> isz' | Some f \<Rightarrow> f)\<rparr>]\<rparr> es)
         = Inr d"
    and g': "g' = g\<lparr>deme_map := (deme_map g)(i \<mapsto> d), demes := demes g @ [d]\<rparr>"
    by blast
  let ?d0 = "\<lparr>deme_id = i, ancestor = anc,
                     epochs = [\<lparr>start_time = st, end_time = Some et',
                       initial_size = Some isz',
                       final_size = Some (case fsz of None \<Rightarrow> isz' | Some f \<Rightarrow> f)\<rparr>]\<rparr>"
  from r have a: "add_epochs ?d0 (case eps of None \<Rightarrow> [] | Some es \<Rightarrow> es) = Inr d"
    by (cases eps) simp_all
  from add_epochs_keeps [OF a] have "epochs d \<noteq> []" by simp
  moreover from add_epochs_end_set [OF a] have "\<forall>x \<in> set (epochs d). end_time x \<noteq> None"
    by simp
  ultimately show ?thesis using g' by simp
qed

section \<open>asdict_compact returns\<close>

lemma set_update_cases:
  "(k', v') \<in> set (AList.update k v al) \<Longrightarrow> (k', v') = (k, v) \<or> (k', v') \<in> set al"
  by (induction al) (auto split: if_splits)

lemma demes_dict_returns:
  "\<forall>x \<in> set ds. epochs x \<noteq> [] \<Longrightarrow> \<exists>dm. demes_dict ds acc = Inr dm"
proof (induction ds arbitrary: acc)
  case Nil
  then show ?case by simp
next
  case (Cons d ds)
  from Cons.prems obtain dd where "deme_dict d = Inr dd"
    by (auto simp: deme_dict_closed)
  with Cons show ?case by (simp add: andthen_def)
qed

lemma m_dict_groups:
  "(k, l) \<in> set (m_dict ms) \<Longrightarrow>
     l \<noteq> [] \<and> (\<forall>m \<in> set l. m \<in> set ms \<and> k = (migration.source m, migration.dest m))"
proof (induction ms arbitrary: k l rule: rev_induct)
  case Nil
  then show ?case by (simp add: m_dict_def)
next
  case (snoc m ms)
  define km where "km = (migration.source m, migration.dest m)"
  define old where "old = (case map_of (m_dict ms) km of None \<Rightarrow> [] | Some l \<Rightarrow> l)"
  have step: "m_dict (ms @ [m]) = AList.update km (old @ [m]) (m_dict ms)"
    unfolding m_dict_def foldl_append km_def old_def by (simp add: Let_def)
  from snoc.prems have "(k, l) \<in> set (AList.update km (old @ [m]) (m_dict ms))"
    unfolding step .
  from set_update_cases [OF this]
  consider "k = km" "l = old @ [m]" | "(k, l) \<in> set (m_dict ms)"
    by blast
  then show ?case
  proof cases
    case 1
    have o: "\<forall>x \<in> set old. x \<in> set ms \<and> km = (migration.source x, migration.dest x)"
    proof (cases "map_of (m_dict ms) km")
      case None
      then show ?thesis by (simp add: old_def)
    next
      case (Some l0)
      then have "(km, l0) \<in> set (m_dict ms)" by (rule map_of_SomeD)
      from snoc.IH [OF this] Some show ?thesis by (simp add: old_def)
    qed
    have "\<forall>x \<in> set (old @ [m]). x \<in> set (ms @ [m])
        \<and> km = (migration.source x, migration.dest x)"
      using o by (simp add: km_def)
    with 1 show ?thesis by (auto simp: km_def)
  next
    case 2
    from snoc.IH [OF this] show ?thesis by simp
  qed
qed

lemma compact_groups_returns:
  "(\<forall>(k, l) \<in> set gs. l \<noteq> []
      \<and> (\<exists>lo hi. check_time_intersection g (fst k) (snd k) None False = Inr (lo, hi))) \<Longrightarrow>
     \<exists>ml. compact_groups g gs = Inr ml"
proof (induction gs)
  case Nil
  then show ?case by simp
next
  case (Cons a gs)
  obtain src dst l where a: "a = ((src, dst), l)" by (cases a) auto
  from Cons.prems a obtain lo hi m ms where
    "check_time_intersection g src dst None False = Inr (lo, hi)" "l = m # ms"
    by (cases l) auto
  moreover from Cons obtain tail where "compact_groups g gs = Inr tail" by auto
  ultimately show ?case using a by (simp add: andthen_def)
qed

text \<open>
  \<^verbatim>\<open>asdict_compact\<close> returns for a graph with at least one deme, in which every deme
  has an epoch and the intersection check succeeds for the two demes of every
  migration.
\<close>

lemma asdict_compact_returns:
  assumes "demes g \<noteq> []" and "\<forall>x \<in> set (demes g). epochs x \<noteq> []"
    and "\<forall>m \<in> set (migrations g). \<exists>lo hi.
           check_time_intersection g (migration.source m) (migration.dest m) None False
             = Inr (lo, hi)"
  shows "\<exists>d. asdict_compact g = Inr d"
proof -
  from demes_dict_returns [OF assms(2)] obtain dm where dm: "demes_dict (demes g) [] = Inr dm"
    by blast
  have "\<forall>(k, l) \<in> set (m_dict (migrations g)). l \<noteq> []
      \<and> (\<exists>lo hi. check_time_intersection g (fst k) (snd k) None False = Inr (lo, hi))"
  proof (clarify, intro conjI)
    fix a b l
    assume kl: "((a, b), l) \<in> set (m_dict (migrations g))"
    from m_dict_groups [OF kl] show "l \<noteq> []" by simp
    from m_dict_groups [OF kl] obtain m where "m \<in> set (migrations g)"
      "(a, b) = (migration.source m, migration.dest m)"
      by (cases l) auto
    with assms(3) show "\<exists>lo hi. check_time_intersection g (fst (a, b)) (snd (a, b)) None False
        = Inr (lo, hi)"
      by auto
  qed
  from compact_groups_returns [OF this] obtain ml where
    "compact_groups g (m_dict (migrations g)) = Inr ml" by blast
  with dm assms(1) show ?thesis
    by (simp add: asdict_compact_def Let_def andthen_def)
qed

end
